theory Spec2Isabelle
  imports Main "HOL-Library.Sublist"
begin

section \<open>JavaScript strings\<close>

text \<open>
  A JavaScript string is a sequence of UTF-16 code units. The catalog's texts (Spanish
  display strings, the accented letters of the state names included) stay below U+0100, so a
  string is modelled as a \<^typ>\<open>char list\<close> whose characters are the code units 0..255
  (Latin-1). On that range \<open>String.prototype.toLowerCase\<close> maps A..Z and U+00C0..U+00DE
  (except the multiplication sign U+00D7) to the code unit 32 above and leaves every other
  code unit alone; \<open>String.prototype.trim\<close> removes the code units 9..13, 32 and 160 from
  both ends.
\<close>

definition lowerChar :: "char \<Rightarrow> char" where
  "lowerChar c =
     (let n = (of_char c :: nat)
      in if (65 \<le> n \<and> n \<le> 90) \<or> (192 \<le> n \<and> n \<le> 222 \<and> n \<noteq> 215)
         then char_of (n + 32) else c)"

definition toLowerCase :: "string \<Rightarrow> string" where
  "toLowerCase s = map lowerChar s"

definition isWhiteSpace :: "char \<Rightarrow> bool" where
  "isWhiteSpace c =
     (let n = (of_char c :: nat) in (9 \<le> n \<and> n \<le> 13) \<or> n = 32 \<or> n = 160)"

definition trimStart :: "string \<Rightarrow> string" where
  "trimStart s = dropWhile isWhiteSpace s"

definition trimEnd :: "string \<Rightarrow> string" where
  "trimEnd s = rev (dropWhile isWhiteSpace (rev s))"

definition trim :: "string \<Rightarrow> string" where
  "trim s = trimStart (trimEnd s)"

text \<open>\<open>hay.includes(needle)\<close> on strings: \<open>needle\<close> occurs at some index of \<open>hay\<close>.\<close>

fun str_includes :: "string \<Rightarrow> string \<Rightarrow> bool" where
  "str_includes [] needle = (needle = [])"
| "str_includes (c # cs) needle = (prefix needle (c # cs) \<or> str_includes cs needle)"

text \<open>\<open>arr.includes(x)\<close> on arrays of strings (strict equality on strings is equality).\<close>

fun arr_includes :: "string list \<Rightarrow> string \<Rightarrow> bool" where
  "arr_includes [] x = False"
| "arr_includes (y # ys) x = (y = x \<or> arr_includes ys x)"

section \<open>The Song record\<close>

text \<open>
  A song is a JavaScript object; a key that may be absent is an \<open>option\<close>. \<open>id\<close> is absent
  on a form draft, \<open>comments\<close> on a form draft, the timestamps on everything built locally.
  A timestamp field holds either the sentinel \<open>FieldValue.serverTimestamp()\<close> or a
  time the server has set.
\<close>

datatype field_time = ServerTimestamp | Time nat

record song =
  id_field :: "string option"
  artistName :: string
  songName :: string
  youtubeLink :: "string option"
  state :: string
  type :: string
  comments :: "string option"
  createdAt :: "field_time option"
  updatedAt :: "field_time option"

section \<open>Filter engine\<close>

text \<open>
  \<open>FilterManager.applyFilters\<close>: the three DOM reads are the arguments (the search
  box's value, the values of the checked type and state checkboxes); the result is the
  array assigned to \<open>filteredSongs\<close>. \<open>song.comments && ...\<close> is false for an absent and
  for an empty comment.
\<close>

definition matchesSearch :: "string \<Rightarrow> song \<Rightarrow> bool" where
  "matchesSearch searchInput s =
     (\<not> (searchInput \<noteq> []) \<or>
      str_includes (toLowerCase (songName s)) searchInput \<or>
      str_includes (toLowerCase (artistName s)) searchInput \<or>
      (case comments s of
         None \<Rightarrow> False
       | Some c \<Rightarrow> c \<noteq> [] \<and> str_includes (toLowerCase c) searchInput))"

definition matchesType :: "string list \<Rightarrow> song \<Rightarrow> bool" where
  "matchesType selectedTypes s =
     (length selectedTypes = 0 \<or> arr_includes selectedTypes (type s))"

definition matchesState :: "string list \<Rightarrow> song \<Rightarrow> bool" where
  "matchesState selectedStates s =
     (length selectedStates = 0 \<or> arr_includes selectedStates (state s))"

definition applyFilters :: "song list \<Rightarrow> string \<Rightarrow> string list \<Rightarrow> string list \<Rightarrow> song list" where
  "applyFilters songs searchValue selectedTypes selectedStates =
     (let searchInput = toLowerCase searchValue
      in filter (\<lambda>s. matchesSearch searchInput s \<and> matchesType selectedTypes s \<and>
                      matchesState selectedStates s) songs)"

text \<open>
  \<open>StorageManager.searchSongs\<close>: \<open>songs\<close> is what \<open>loadSongs()\<close> read from local storage;
  each criterion may be absent (\<open>!criteria.search\<close>, \<open>!criteria.types\<close>, \<open>!criteria.states\<close>).
\<close>

record criteria =
  search :: "string option"
  types :: "string list option"
  states :: "string list option"

definition searchSongs :: "song list \<Rightarrow> criteria \<Rightarrow> song list" where
  "searchSongs songs cr =
     filter (\<lambda>s.
        (case search cr of
           None \<Rightarrow> True
         | Some q \<Rightarrow>
             \<not> (q \<noteq> []) \<or>
             str_includes (toLowerCase (songName s)) (toLowerCase q) \<or>
             str_includes (toLowerCase (artistName s)) (toLowerCase q) \<or>
             (case comments s of
                None \<Rightarrow> False
              | Some c \<Rightarrow> c \<noteq> [] \<and> str_includes (toLowerCase c) (toLowerCase q))) \<and>
        (case types cr of None \<Rightarrow> True | Some ts \<Rightarrow> length ts = 0 \<or> arr_includes ts (type s)) \<and>
        (case states cr of None \<Rightarrow> True | Some ss \<Rightarrow> length ss = 0 \<or> arr_includes ss (state s)))
       songs"

subsection \<open>The specification's matching rule\<close>

text \<open>
  The query of the specification: a search text and two sets. \<open>ci_substring q f\<close> says
  that \<open>q\<close> is a case-insensitive substring of \<open>f\<close>: after lowering both, \<open>f\<close> is some
  prefix, then \<open>q\<close>, then some suffix.
\<close>

record query =
  searchText :: string
  q_types :: "string set"
  q_states :: "string set"

definition ci_substring :: "string \<Rightarrow> string \<Rightarrow> bool" where
  "ci_substring q f = (\<exists>pre suf. toLowerCase f = pre @ toLowerCase q @ suf)"

definition spec_matches :: "query \<Rightarrow> song \<Rightarrow> bool" where
  "spec_matches q s =
     ((searchText q = [] \<or> ci_substring (searchText q) (artistName s) \<or>
       ci_substring (searchText q) (songName s) \<or>
       (\<exists>c. comments s = Some c \<and> ci_substring (searchText q) c)) \<and>
      (q_types q = {} \<or> type s \<in> q_types q) \<and>
      (q_states q = {} \<or> state s \<in> q_states q))"

section \<open>CSV export\<close>

abbreviation dquote :: char where "dquote \<equiv> CHR 0x22"
abbreviation newline :: char where "newline \<equiv> CHR 0x0A"
abbreviation comma :: char where "comma \<equiv> CHR '',''"

text \<open>\<open>arr.join(sep)\<close> and \<open>str.split(sep)\<close> for a one-character separator.\<close>

fun str_join :: "string \<Rightarrow> string list \<Rightarrow> string" where
  "str_join sep [] = []"
| "str_join sep [x] = x"
| "str_join sep (x # y # ys) = x @ sep @ str_join sep (y # ys)"

fun split_loop :: "char \<Rightarrow> string \<Rightarrow> string \<Rightarrow> string list" where
  "split_loop sep [] current = [current]"
| "split_loop sep (c # cs) current =
     (if c = sep then current # split_loop sep cs [] else split_loop sep cs (current @ [c]))"

definition str_split :: "char \<Rightarrow> string \<Rightarrow> string list" where
  "str_split sep s = split_loop sep s []"

text \<open>\<open>a || b\<close> on strings: the empty string is the only falsy string.\<close>

definition js_or :: "string \<Rightarrow> string \<Rightarrow> string" where
  "js_or a b = (if a = [] then b else a)"

text \<open>\<open>field || ''\<close> on a field that may be absent.\<close>

definition or_empty :: "string option \<Rightarrow> string" where
  "or_empty f = (case f of None \<Rightarrow> [] | Some v \<Rightarrow> js_or v [])"

text \<open>
  \<open>SongManager.escapeCSVField\<close>, on a string (the \<open>null\<close>/\<open>undefined\<close> branch is not
  reachable from a typed song). \<open>replace(/"/g, '""')\<close> doubles every quote.
\<close>

definition replace_quotes :: "string \<Rightarrow> string" where
  "replace_quotes s = concat (map (\<lambda>c. if c = dquote then [dquote, dquote] else [c]) s)"

definition escapeCSVField :: "string \<Rightarrow> string" where
  "escapeCSVField stringField =
     (if str_includes stringField [comma] \<or> str_includes stringField [dquote] \<or>
         str_includes stringField [newline]
      then [dquote] @ replace_quotes stringField @ [dquote]
      else stringField)"

definition csv_headers :: "string list" where
  "csv_headers = [''Nombre'', ''Artista'', ''Estado'', ''Tipo'', ''Comentarios'', ''YouTube'']"

definition csv_row :: "song \<Rightarrow> string list" where
  "csv_row s =
     [escapeCSVField (songName s), escapeCSVField (artistName s), escapeCSVField (state s),
      escapeCSVField (type s), escapeCSVField (or_empty (comments s)),
      escapeCSVField (or_empty (youtubeLink s))]"

text \<open>\<open>SongManager.generateCSVContent\<close>, of the array \<open>this.filteredSongs\<close>.\<close>

definition generateCSVContent :: "song list \<Rightarrow> string" where
  "generateCSVContent filteredSongs =
     str_join [newline]
       (str_join [comma] csv_headers # map (\<lambda>s. str_join [comma] (csv_row s)) filteredSongs)"

section \<open>CSV import\<close>

text \<open>\<open>CSVImporter.parseCSVLine\<close>: the loop over the characters, then the last push.\<close>

fun parseCSVLine_loop :: "string \<Rightarrow> string list \<Rightarrow> string \<Rightarrow> bool \<Rightarrow> string list" where
  "parseCSVLine_loop [] result current inQuotes = result @ [current]"
| "parseCSVLine_loop (char # rest) result current inQuotes =
     (if char = dquote then parseCSVLine_loop rest result current (\<not> inQuotes)
      else if char = comma \<and> \<not> inQuotes then parseCSVLine_loop rest (result @ [current]) [] inQuotes
      else parseCSVLine_loop rest result (current @ [char]) inQuotes)"

definition parseCSVLine :: "string \<Rightarrow> string list" where
  "parseCSVLine line = parseCSVLine_loop line [] [] False"

text \<open>
  \<open>mapState\<close> and \<open>mapType\<close>: a lookup in an object literal, with a default. The argument
  is \<open>undefined\<close> when the row has no such column. The model covers the keys the literal
  defines and every key it does not have. For a key that an object literal inherits from
  \<open>Object.prototype\<close> (\<open>constructor\<close>, \<open>toString\<close>, \<open>valueOf\<close> and the like) the source
  returns the inherited function, which is not a string; the model returns the default
  there, so nothing below is stated for a row whose state or type cell is such a key.
\<close>

definition en_grabacion :: string where
  "en_grabacion = ''En grabaci'' @ [CHR 0xF3] @ ''n''"

definition stateMap :: "(string \<times> string) list" where
  "stateMap = [(''Aprobado'', ''Aprobado''), (''Por aprobar'', ''Por aprobar''),
               (en_grabacion, en_grabacion), (''Listo'', ''Listo''),
               (''Rechazado'', ''Rechazado'')]"

definition typeMap :: "(string \<times> string) list" where
  "typeMap = [(''Lento'', ''Lento''), (''Movido'', ''Movido'')]"

definition lookup_or :: "(string \<times> string) list \<Rightarrow> string option \<Rightarrow> string \<Rightarrow> string" where
  "lookup_or table key dflt =
     (case key of
        None \<Rightarrow> dflt
      | Some k \<Rightarrow> (case map_of table k of None \<Rightarrow> dflt | Some v \<Rightarrow> js_or v dflt))"

definition mapState :: "string option \<Rightarrow> string" where
  "mapState csvState = lookup_or stateMap csvState ''Por aprobar''"

definition mapType :: "string option \<Rightarrow> string" where
  "mapType csvType = lookup_or typeMap csvType ''Lento''"

text \<open>\<open>values[i]?.trim()\<close>: \<open>undefined\<close> past the end of the array.\<close>

definition trimmed_at :: "string list \<Rightarrow> nat \<Rightarrow> string option" where
  "trimmed_at values i = (if i < length values then Some (trim (values ! i)) else None)"

text \<open>
  The two object literals of \<open>parseCSV\<close>. \<open>newId\<close> stands for the identifier built from
  \<open>Date.now()\<close> and \<open>Math.random()\<close>.
\<close>

definition song_of_values :: "bool \<Rightarrow> string \<Rightarrow> string list \<Rightarrow> song" where
  "song_of_values isNewFormat newId values =
     (if isNewFormat then
        \<lparr>id_field = Some newId,
         artistName = or_empty (trimmed_at values 1),
         songName = or_empty (trimmed_at values 0),
         youtubeLink = Some (or_empty (trimmed_at values 5)),
         state = js_or (mapState (trimmed_at values 2)) ''Por aprobar'',
         type = js_or (mapType (trimmed_at values 3)) ''Lento'',
         comments = Some (or_empty (trimmed_at values 4)),
         createdAt = None, updatedAt = None\<rparr>
      else
        \<lparr>id_field = Some newId,
         artistName = or_empty (trimmed_at values 1),
         songName = or_empty (trimmed_at values 0),
         youtubeLink = Some [],
         state = js_or (mapState (trimmed_at values 3)) ''Por aprobar'',
         type = js_or (mapType (trimmed_at values 4)) ''Lento'',
         comments = Some [],
         createdAt = None, updatedAt = None\<rparr>)"

text \<open>
  The loop of \<open>parseCSV\<close> over \<open>lines[i]\<close>, \<open>i = 1, 2, ...\<close>; \<open>gen i\<close> is the identifier
  generated while line \<open>i\<close> is read.
\<close>

fun parseCSV_rows :: "(nat \<Rightarrow> string) \<Rightarrow> string list \<Rightarrow> nat \<Rightarrow> string list \<Rightarrow> song list" where
  "parseCSV_rows gen headers i [] = []"
| "parseCSV_rows gen headers i (l # ls) =
     (let line = trim l
      in if line = [] then parseCSV_rows gen headers (Suc i) ls
         else let values = parseCSVLine line
              in if length values \<ge> 4
                 then (let isNewFormat = arr_includes headers ''Estado'' \<and> arr_includes headers ''Tipo''
                       in song_of_values isNewFormat (gen i) values # parseCSV_rows gen headers (Suc i) ls)
                 else parseCSV_rows gen headers (Suc i) ls)"

definition parseCSV :: "(nat \<Rightarrow> string) \<Rightarrow> string \<Rightarrow> song list" where
  "parseCSV gen csvText =
     (case str_split newline csvText of
        [] \<Rightarrow> []
      | line0 # rest \<Rightarrow> parseCSV_rows gen (map trim (str_split comma line0)) 1 rest)"

text \<open>
  The duplicate filter of \<open>handleFileImport\<close> (the expression that computes \<open>newSongs\<close>
  from \<open>importedSongs\<close> and \<open>existingSongs\<close>); \<open>list_ex\<close> is \<open>Array.prototype.some\<close>.
\<close>

definition filterDuplicates :: "song list \<Rightarrow> song list \<Rightarrow> song list" where
  "filterDuplicates importedSongs existingSongs =
     filter (\<lambda>importedSong.
        \<not> list_ex (\<lambda>existingSong.
             toLowerCase (artistName existingSong) = toLowerCase (artistName importedSong) \<and>
             toLowerCase (songName existingSong) = toLowerCase (songName importedSong))
           existingSongs)
       importedSongs"

section \<open>The remote document store\<close>

text \<open>
  The Firestore collection \<open>songs\<close> as the adapter sees it. The backend is outside the
  repository; its choices are made explicit: request number \<open>n\<close> (counted in \<open>served\<close>)
  fails when \<open>rejects n\<close>, and a document added by request \<open>n\<close> gets the identifier
  \<open>autoId n\<close>. The request number also serves as the server's clock: it replaces the
  sentinel \<open>FieldValue.serverTimestamp()\<close> in what is stored.
\<close>

datatype error = StoreUnavailable | RemoteError | NotFound | InvalidArgument

record firestore =
  docs :: "(string \<times> song) list"
  served :: nat
  rejects :: "nat \<Rightarrow> bool"
  autoId :: "nat \<Rightarrow> string"

definition resolve_time :: "nat \<Rightarrow> field_time option \<Rightarrow> field_time option" where
  "resolve_time now t = (case t of Some ServerTimestamp \<Rightarrow> Some (Time now) | _ \<Rightarrow> t)"

definition resolve :: "nat \<Rightarrow> song \<Rightarrow> song" where
  "resolve now d =
     d\<lparr>createdAt := resolve_time now (createdAt d), updatedAt := resolve_time now (updatedAt d)\<rparr>"

text \<open>\<open>collection('songs').add(data)\<close>\<close>

definition collection_add :: "firestore \<Rightarrow> song \<Rightarrow> (error + string) \<times> firestore" where
  "collection_add fs data =
     (let n = served fs
      in if rejects fs n then (Inl RemoteError, fs\<lparr>served := Suc n\<rparr>)
         else (Inr (autoId fs n),
               fs\<lparr>docs := docs fs @ [(autoId fs n, resolve n data)], served := Suc n\<rparr>))"

text \<open>\<open>collection('songs').get()\<close>: the snapshot of all documents.\<close>

definition collection_get :: "firestore \<Rightarrow> (error + (string \<times> song) list) \<times> firestore" where
  "collection_get fs =
     (let n = served fs
      in if rejects fs n then (Inl RemoteError, fs\<lparr>served := Suc n\<rparr>)
         else (Inr (docs fs), fs\<lparr>served := Suc n\<rparr>))"

text \<open>
  \<open>collection('songs').orderBy('createdAt', 'desc').get()\<close>: the documents that have a
  creation time, newest first.
\<close>

definition created_time :: "song \<Rightarrow> nat option" where
  "created_time d = (case createdAt d of Some (Time t) \<Rightarrow> Some t | _ \<Rightarrow> None)"

definition time_key :: "string \<times> song \<Rightarrow> nat" where
  "time_key = (\<lambda>(i, d). case created_time d of Some t \<Rightarrow> t | None \<Rightarrow> 0)"

definition collection_get_ordered :: "firestore \<Rightarrow> (error + (string \<times> song) list) \<times> firestore" where
  "collection_get_ordered fs =
     (let n = served fs
      in if rejects fs n then (Inl RemoteError, fs\<lparr>served := Suc n\<rparr>)
         else (Inr (rev (sort_key time_key
                           (filter (\<lambda>(i, d). created_time d \<noteq> None) (docs fs)))),
               fs\<lparr>served := Suc n\<rparr>))"

text \<open>
  \<open>doc(id).update(data)\<close> writes the keys present in \<open>data\<close> over the stored document and
  fails when there is no such document; \<open>doc(id).delete()\<close> succeeds whether or not the
  document exists. \<open>doc(id)\<close> itself throws on a missing or empty identifier.
\<close>

definition present_or :: "'a option \<Rightarrow> 'a option \<Rightarrow> 'a option" where
  "present_or new old = (case new of None \<Rightarrow> old | Some v \<Rightarrow> Some v)"

definition merge_fields :: "song \<Rightarrow> song \<Rightarrow> song" where
  "merge_fields old data =
     \<lparr>id_field = present_or (id_field data) (id_field old),
      artistName = artistName data, songName = songName data,
      youtubeLink = present_or (youtubeLink data) (youtubeLink old),
      state = state data, type = type data,
      comments = present_or (comments data) (comments old),
      createdAt = present_or (createdAt data) (createdAt old),
      updatedAt = present_or (updatedAt data) (updatedAt old)\<rparr>"

definition valid_doc_id :: "string option \<Rightarrow> bool" where
  "valid_doc_id i = (case i of None \<Rightarrow> False | Some v \<Rightarrow> v \<noteq> [])"

definition doc_update :: "firestore \<Rightarrow> string option \<Rightarrow> song \<Rightarrow> (error + unit) \<times> firestore" where
  "doc_update fs docId data =
     (case docId of
        None \<Rightarrow> (Inl InvalidArgument, fs)
      | Some path \<Rightarrow>
          if path = [] then (Inl InvalidArgument, fs)
          else let n = served fs
               in if rejects fs n then (Inl RemoteError, fs\<lparr>served := Suc n\<rparr>)
                  else if map_of (docs fs) path = None then (Inl NotFound, fs\<lparr>served := Suc n\<rparr>)
                  else (Inr (),
                        fs\<lparr>docs := map (\<lambda>(i, d). if i = path
                                                then (i, resolve n (merge_fields d data))
                                                else (i, d))
                                      (docs fs),
                           served := Suc n\<rparr>))"

definition doc_delete :: "firestore \<Rightarrow> string option \<Rightarrow> (error + unit) \<times> firestore" where
  "doc_delete fs docId =
     (case docId of
        None \<Rightarrow> (Inl InvalidArgument, fs)
      | Some path \<Rightarrow>
          if path = [] then (Inl InvalidArgument, fs)
          else let n = served fs
               in if rejects fs n then (Inl RemoteError, fs\<lparr>served := Suc n\<rparr>)
                  else (Inr (), fs\<lparr>docs := filter (\<lambda>(i, d). i \<noteq> path) (docs fs),
                                  served := Suc n\<rparr>))"

section \<open>Remote store adapter (FirebaseManager)\<close>

text \<open>
  The adapter's readiness flag, with the world it acts on: the remote collection behind
  \<open>this.db\<close>, the item \<open>songs\<close> of \<open>localStorage\<close> as the list \<open>JSON.parse\<close> yields
  (\<open>None\<close>: no such item), and the lines written by \<open>console.error\<close>, one constructor
  per call site. A thrown error is the result \<open>Inl\<close>; every method returns the world it
  leaves behind.
\<close>

datatype log_entry =
  LoadError | AddError | UpdateError | DeleteError | MigrateItemError | MigrateError
| ImportItemError | SaveError | ConfirmDeleteError | CommentError | InitialLoadError

record firebaseManager =
  isInitialized :: bool
  db :: firestore
  localStorage :: "song list option"
  console :: "log_entry list"

definition console_error :: "log_entry \<Rightarrow> firebaseManager \<Rightarrow> firebaseManager" where
  "console_error e fm = fm\<lparr>console := console fm @ [e]\<rparr>"

definition loadSongs :: "firebaseManager \<Rightarrow> (error + song list) \<times> firebaseManager" where
  "loadSongs fm =
     (if \<not> isInitialized fm then (Inl StoreUnavailable, fm)
      else case collection_get_ordered (db fm) of
             (Inl e, db') \<Rightarrow> (Inl e, console_error LoadError (fm\<lparr>db := db'\<rparr>))
           | (Inr snapshot, db') \<Rightarrow>
               (Inr (map (\<lambda>(docId, d). d\<lparr>id_field := present_or (id_field d) (Some docId)\<rparr>)
                      snapshot),
                fm\<lparr>db := db'\<rparr>))"

definition saveSongs :: "firebaseManager \<Rightarrow> song list \<Rightarrow> (error + bool) \<times> firebaseManager" where
  "saveSongs fm songs =
     (if \<not> isInitialized fm then (Inl StoreUnavailable, fm) else (Inr True, fm))"

definition addSong :: "firebaseManager \<Rightarrow> song \<Rightarrow> (error + song) \<times> firebaseManager" where
  "addSong fm song =
     (if \<not> isInitialized fm then (Inl StoreUnavailable, fm)
      else let songWithoutId = song\<lparr>id_field := None\<rparr>;
               songData = songWithoutId\<lparr>createdAt := Some ServerTimestamp,
                                         updatedAt := Some ServerTimestamp\<rparr>
           in case collection_add (db fm) songData of
                (Inl e, db') \<Rightarrow> (Inl e, console_error AddError (fm\<lparr>db := db'\<rparr>))
              | (Inr docRef_id, db') \<Rightarrow>
                  (Inr (songWithoutId\<lparr>id_field := Some docRef_id\<rparr>), fm\<lparr>db := db'\<rparr>))"

definition updateSong :: "firebaseManager \<Rightarrow> string option \<Rightarrow> song \<Rightarrow> (error + bool) \<times> firebaseManager" where
  "updateSong fm songId updatedSong =
     (if \<not> isInitialized fm then (Inl StoreUnavailable, fm)
      else let songData = updatedSong\<lparr>updatedAt := Some ServerTimestamp\<rparr>
           in case doc_update (db fm) songId songData of
                (Inl e, db') \<Rightarrow> (Inl e, console_error UpdateError (fm\<lparr>db := db'\<rparr>))
              | (Inr _, db') \<Rightarrow> (Inr True, fm\<lparr>db := db'\<rparr>))"

definition deleteSong :: "firebaseManager \<Rightarrow> string option \<Rightarrow> (error + bool) \<times> firebaseManager" where
  "deleteSong fm songId =
     (if \<not> isInitialized fm then (Inl StoreUnavailable, fm)
      else case doc_delete (db fm) songId of
             (Inl e, db') \<Rightarrow> (Inl e, console_error DeleteError (fm\<lparr>db := db'\<rparr>))
           | (Inr _, db') \<Rightarrow> (Inr True, fm\<lparr>db := db'\<rparr>))"

text \<open>
  \<open>JSON.parse(localStorage.getItem('songs') || '[]')\<close>, read by the migration and by the
  initial load.
\<close>

definition legacy_list :: "firebaseManager \<Rightarrow> song list" where
  "legacy_list fm = (case localStorage fm of None \<Rightarrow> [] | Some l \<Rightarrow> l)"

text \<open>The loop of \<open>migrateFromLocalStorage\<close> over \<open>localSongs\<close>, one \<open>add\<close> at a time.\<close>

fun migrate_loop :: "song list \<Rightarrow> firebaseManager \<Rightarrow> firebaseManager" where
  "migrate_loop [] fm = fm"
| "migrate_loop (song # rest) fm =
     (let songWithoutId = song\<lparr>id_field := None\<rparr>;
          songData = songWithoutId\<lparr>createdAt := Some ServerTimestamp,
                                    updatedAt := Some ServerTimestamp\<rparr>
      in case collection_add (db fm) songData of
           (Inl e, db') \<Rightarrow> migrate_loop rest (console_error MigrateItemError (fm\<lparr>db := db'\<rparr>))
         | (Inr _, db') \<Rightarrow> migrate_loop rest (fm\<lparr>db := db'\<rparr>))"

definition migrateFromLocalStorage :: "firebaseManager \<Rightarrow> (error + unit) \<times> firebaseManager" where
  "migrateFromLocalStorage fm =
     (if \<not> isInitialized fm then (Inl StoreUnavailable, fm)
      else let localSongs = legacy_list fm
           in if length localSongs = 0 then (Inr (), fm)
              else case collection_get (db fm) of
                     (Inl e, db') \<Rightarrow> (Inl e, console_error MigrateError (fm\<lparr>db := db'\<rparr>))
                   | (Inr snapshot, db') \<Rightarrow>
                       if length snapshot < length localSongs
                       then (Inr (), migrate_loop localSongs (fm\<lparr>db := db'\<rparr>))
                       else (Inr (), fm\<lparr>db := db'\<rparr>))"

section \<open>The orchestrator (SongManager)\<close>

text \<open>
  \<open>this.filteredSongs\<close> is a reference: after \<open>this.filteredSongs = this.songs\<close> the two
  fields are one array, and a write through either is seen through both. \<open>SameArray\<close>
  stands for that sharing, \<open>OwnArray xs\<close> for an array of its own.
\<close>

datatype view = SameArray | OwnArray "song list"

text \<open>The dialogs shown to the user (\<open>alert\<close>, \<open>confirm\<close>), with the numbers they print.\<close>

datatype dialog =
  AlertLoadFailed | AlertSaveFailed | AlertDeleteFailed | AlertNotCsv | AlertNoValidSongs
| AlertAllExist | Confirm nat nat nat | AlertImported nat

record songManager =
  firebaseManager :: firebaseManager
  songs :: "song list"
  filteredSongs :: view
  currentEditId :: "string option"
  songToDelete :: "song option"
  cachedArtists :: "string list option"
  searchInputValue :: string
  typeChecked :: "string list"
  stateChecked :: "string list"
  dialogs :: "dialog list"

definition readFiltered :: "songManager \<Rightarrow> song list" where
  "readFiltered sm = (case filteredSongs sm of SameArray \<Rightarrow> songs sm | OwnArray xs \<Rightarrow> xs)"

text \<open>\<open>this.songs = arr\<close> with a new array: a shared \<open>filteredSongs\<close> keeps the old one.\<close>

definition assign_songs :: "song list \<Rightarrow> songManager \<Rightarrow> songManager" where
  "assign_songs arr sm =
     sm\<lparr>songs := arr,
        filteredSongs := (case filteredSongs sm of SameArray \<Rightarrow> OwnArray (songs sm) | v \<Rightarrow> v)\<rparr>"

text \<open>\<open>this.filteredSongs[i] = v\<close>\<close>

definition write_filtered :: "nat \<Rightarrow> song \<Rightarrow> songManager \<Rightarrow> songManager" where
  "write_filtered i v sm =
     (case filteredSongs sm of
        SameArray \<Rightarrow> sm\<lparr>songs := (songs sm)[i := v]\<rparr>
      | OwnArray xs \<Rightarrow> sm\<lparr>filteredSongs := OwnArray (xs[i := v])\<rparr>)"

text \<open>\<open>arr.findIndex(p)\<close>: \<open>None\<close> is the result \<open>-1\<close>; \<open>arr[-1] = v\<close> changes no element.\<close>

fun findIndex :: "('a \<Rightarrow> bool) \<Rightarrow> 'a list \<Rightarrow> nat option" where
  "findIndex p [] = None"
| "findIndex p (x # xs) = (if p x then Some 0 else map_option Suc (findIndex p xs))"

definition write_at :: "nat option \<Rightarrow> 'a \<Rightarrow> 'a list \<Rightarrow> 'a list" where
  "write_at index v arr = (case index of None \<Rightarrow> arr | Some i \<Rightarrow> arr[i := v])"

definition alert :: "dialog \<Rightarrow> songManager \<Rightarrow> songManager" where
  "alert d sm = sm\<lparr>dialogs := dialogs sm @ [d]\<rparr>"

definition log_error :: "log_entry \<Rightarrow> songManager \<Rightarrow> songManager" where
  "log_error e sm = sm\<lparr>firebaseManager := console_error e (firebaseManager sm)\<rparr>"

definition invalidateArtistsCache :: "songManager \<Rightarrow> songManager" where
  "invalidateArtistsCache sm = sm\<lparr>cachedArtists := None\<rparr>"

definition hideModal :: "songManager \<Rightarrow> songManager" where
  "hideModal sm = sm\<lparr>currentEditId := None\<rparr>"

definition hideDeleteModal :: "songManager \<Rightarrow> songManager" where
  "hideDeleteModal sm = sm\<lparr>songToDelete := None\<rparr>"

text \<open>
  \<open>FilterManager.applyFilters\<close> as a method: it reads the search box and the checked
  boxes and assigns the new array to \<open>filteredSongs\<close>.
\<close>

definition applyFilters_on :: "songManager \<Rightarrow> songManager" where
  "applyFilters_on sm =
     sm\<lparr>filteredSongs :=
          OwnArray (applyFilters (songs sm) (searchInputValue sm) (typeChecked sm) (stateChecked sm))\<rparr>"

text \<open>
  A filter change: the user edits the search box or ticks a box, and the listener calls
  \<open>applyFilters\<close>.
\<close>

definition changeFilters :: "string \<Rightarrow> string list \<Rightarrow> string list \<Rightarrow> songManager \<Rightarrow> songManager" where
  "changeFilters v ts ss sm =
     applyFilters_on (sm\<lparr>searchInputValue := v, typeChecked := ts, stateChecked := ss\<rparr>)"

definition clearFilters :: "songManager \<Rightarrow> songManager" where
  "clearFilters sm =
     sm\<lparr>searchInputValue := [], typeChecked := [], stateChecked := [], filteredSongs := SameArray\<rparr>"

text \<open>\<open>handleSubmit\<close>: the form's five values make \<open>formData\<close>.\<close>

definition formData :: "string \<Rightarrow> string \<Rightarrow> string \<Rightarrow> string \<Rightarrow> string \<Rightarrow> song" where
  "formData artist name link st ty =
     \<lparr>id_field = None, artistName = artist, songName = name, youtubeLink = Some link,
      state = st, type = ty, comments = None, createdAt = None, updatedAt = None\<rparr>"

definition handleSubmit :: "songManager \<Rightarrow> song \<Rightarrow> songManager" where
  "handleSubmit sm fd =
     (if valid_doc_id (currentEditId sm) then
        (case updateSong (firebaseManager sm) (currentEditId sm) fd of
           (Inl e, fm') \<Rightarrow> alert AlertSaveFailed (log_error SaveError (sm\<lparr>firebaseManager := fm'\<rparr>))
         | (Inr updatedSong, fm') \<Rightarrow>
             (let sm1 = sm\<lparr>firebaseManager := fm'\<rparr>;
                  sm2 = (if updatedSong
                         then sm1\<lparr>songs := write_at
                                   (findIndex (\<lambda>song. id_field song = currentEditId sm) (songs sm1))
                                   (fd\<lparr>id_field := currentEditId sm\<rparr>) (songs sm1)\<rparr>
                         else sm1)
              in hideModal (applyFilters_on (invalidateArtistsCache sm2))))
      else
        (case addSong (firebaseManager sm) fd of
           (Inl e, fm') \<Rightarrow> alert AlertSaveFailed (log_error SaveError (sm\<lparr>firebaseManager := fm'\<rparr>))
         | (Inr newSong, fm') \<Rightarrow>
             (let sm1 = sm\<lparr>firebaseManager := fm'\<rparr>;
                  sm2 = sm1\<lparr>songs := songs sm1 @ [newSong]\<rparr>
              in hideModal (applyFilters_on (invalidateArtistsCache sm2)))))"

definition confirmDelete :: "songManager \<Rightarrow> songManager" where
  "confirmDelete sm =
     (case songToDelete sm of
        None \<Rightarrow> sm
      | Some target \<Rightarrow>
          (case deleteSong (firebaseManager sm) (id_field target) of
             (Inl e, fm') \<Rightarrow>
               alert AlertDeleteFailed (log_error ConfirmDeleteError (sm\<lparr>firebaseManager := fm'\<rparr>))
           | (Inr success, fm') \<Rightarrow>
               (let sm1 = sm\<lparr>firebaseManager := fm'\<rparr>;
                    sm2 = (if success
                           then applyFilters_on (invalidateArtistsCache
                                  (assign_songs
                                     (filter (\<lambda>song. id_field song \<noteq> id_field target) (songs sm1)) sm1))
                           else sm1)
                in hideDeleteModal sm2)))"

text \<open>
  \<open>updateComment\<close>: \<open>hasInput\<close> says whether the table holds an input for \<open>songId\<close>
  (the result of \<open>document.querySelector\<close>).
\<close>

definition updateComment :: "songManager \<Rightarrow> string \<Rightarrow> string \<Rightarrow> bool \<Rightarrow> songManager" where
  "updateComment sm songId comment hasInput =
     (case find (\<lambda>song. id_field song = Some songId) (songs sm) of
        None \<Rightarrow> sm
      | Some song \<Rightarrow>
          if \<not> hasInput then sm
          else let updatedSong = song\<lparr>comments := Some comment\<rparr>
               in (case updateSong (firebaseManager sm) (Some songId) updatedSong of
                    (Inl e, fm') \<Rightarrow> log_error CommentError (sm\<lparr>firebaseManager := fm'\<rparr>)
                  | (Inr success, fm') \<Rightarrow>
                      (let sm1 = sm\<lparr>firebaseManager := fm'\<rparr>
                       in if success
                          then (let sm2 = sm1\<lparr>songs := write_at
                                            (findIndex (\<lambda>song. id_field song = Some songId) (songs sm1))
                                            updatedSong (songs sm1)\<rparr>
                                in (case findIndex (\<lambda>song. id_field song = Some songId)
                                           (readFiltered sm2) of
                                      None \<Rightarrow> sm2
                                    | Some filteredIndex \<Rightarrow>
                                        write_filtered filteredIndex updatedSong sm2))
                          else sm1)))"

text \<open>
  The bulk import of \<open>handleFileImport\<close>: the loop over \<open>newSongs\<close>, one awaited
  \<open>addSong\<close> at a time inside its own \<open>try\<close>, then the assignment of \<open>filteredSongs\<close> and
  the final \<open>alert\<close>.
\<close>

fun import_loop :: "song list \<Rightarrow> songManager \<Rightarrow> songManager" where
  "import_loop [] sm = sm"
| "import_loop (song # rest) sm =
     (case addSong (firebaseManager sm) song of
        (Inl e, fm') \<Rightarrow> import_loop rest (log_error ImportItemError (sm\<lparr>firebaseManager := fm'\<rparr>))
      | (Inr addedSong, fm') \<Rightarrow>
          import_loop rest (sm\<lparr>firebaseManager := fm', songs := songs sm @ [addedSong]\<rparr>))"

definition bulkImport :: "song list \<Rightarrow> songManager \<Rightarrow> songManager" where
  "bulkImport newSongs sm =
     alert (AlertImported (length newSongs)) ((import_loop newSongs sm)\<lparr>filteredSongs := SameArray\<rparr>)"

text \<open>
  \<open>handleFileImport\<close>: \<open>file\<close> is the chosen file's name and text (reading it is taken to
  succeed), \<open>gen\<close> the identifiers \<open>parseCSV\<close> generates, \<open>answer\<close> the user's answer to
  \<open>confirm\<close>. \<open>Confirm total new dup\<close> is the confirmation message with its three numbers.
\<close>

definition handleFileImport :: "songManager \<Rightarrow> (string \<times> string) option \<Rightarrow> (nat \<Rightarrow> string) \<Rightarrow> bool \<Rightarrow> songManager" where
  "handleFileImport sm file gen answer =
     (case file of
        None \<Rightarrow> sm
      | Some (name, csvText) \<Rightarrow>
          if \<not> suffix ''.csv'' (toLowerCase name) then alert AlertNotCsv sm
          else let importedSongs = parseCSV gen csvText
               in if length importedSongs = 0 then alert AlertNoValidSongs sm
                  else let existingSongs = songs sm;
                           newSongs = filterDuplicates importedSongs existingSongs
                       in if length newSongs = 0 then alert AlertAllExist sm
                          else let sm1 = alert (Confirm (length importedSongs) (length newSongs)
                                                  (length importedSongs - length newSongs)) sm
                               in if answer then bulkImport newSongs sm1 else sm1)"

text \<open>
  \<open>waitForFirebaseInit\<close> polls the readiness flag every 100 ms. Nothing sets the flag
  after the constructor has run, so the poll sees the same adapter each time; when the
  flag is not set the promise never resolves (the value \<open>None\<close>).
\<close>

partial_function (option) waitForFirebaseInit :: "firebaseManager \<Rightarrow> unit option" where
  "waitForFirebaseInit fm = (if isInitialized fm then Some () else waitForFirebaseInit fm)"

text \<open>
  \<open>loadInitialData\<close>: the clearing of the legacy list (\<open>clearLegacy\<close>, the four lines
  before the migration call), then the migration guard, then the load; the \<open>catch\<close>
  branch is \<open>load_failed\<close>.
\<close>

definition clearLegacy :: "songManager \<Rightarrow> songManager" where
  "clearLegacy sm =
     (let localSongs = legacy_list (firebaseManager sm)
      in if length localSongs > 0
         then sm\<lparr>firebaseManager := (firebaseManager sm)\<lparr>localStorage := None\<rparr>\<rparr>
         else sm)"

definition load_failed :: "songManager \<Rightarrow> songManager" where
  "load_failed sm =
     alert AlertLoadFailed
       ((log_error InitialLoadError sm)\<lparr>songs := [], filteredSongs := OwnArray []\<rparr>)"

definition loadAfterInit :: "songManager \<Rightarrow> songManager" where
  "loadAfterInit sm =
     (let sm1 = clearLegacy sm
      in case migrateFromLocalStorage (firebaseManager sm1) of
           (Inl e, fm') \<Rightarrow> load_failed (sm1\<lparr>firebaseManager := fm'\<rparr>)
         | (Inr _, fm') \<Rightarrow>
             (case loadSongs fm' of
                (Inl e, fm'') \<Rightarrow> load_failed (sm1\<lparr>firebaseManager := fm''\<rparr>)
              | (Inr loaded, fm'') \<Rightarrow>
                  sm1\<lparr>firebaseManager := fm'', songs := loaded, filteredSongs := SameArray\<rparr>))"

definition loadInitialData :: "songManager \<Rightarrow> songManager option" where
  "loadInitialData sm =
     (case waitForFirebaseInit (firebaseManager sm) of
        None \<Rightarrow> None
      | Some _ \<Rightarrow> Some (loadAfterInit sm))"

section \<open>Notions used to state the properties\<close>

text \<open>
  Two records have the same (artistName, songName) pair, compared case-insensitively.
\<close>

definition same_pair :: "song \<Rightarrow> song \<Rightarrow> bool" where
  "same_pair a b =
     (toLowerCase (artistName a) = toLowerCase (artistName b) \<and>
      toLowerCase (songName a) = toLowerCase (songName b))"

text \<open>
  The record that request \<open>n\<close> stores for the legacy record \<open>s\<close>: the local id
  stripped, both timestamps set by the server, under the identifier the backend assigns.
\<close>

definition migrated_doc :: "(nat \<Rightarrow> string) \<Rightarrow> nat \<times> song \<Rightarrow> string \<times> song" where
  "migrated_doc ids = (\<lambda>(n, s).
     (ids n, s\<lparr>id_field := None, createdAt := Some (Time n), updatedAt := Some (Time n)\<rparr>))"

text \<open>The record the mirror receives for the candidate \<open>s\<close> created by request \<open>n\<close>.\<close>

definition imported_song :: "(nat \<Rightarrow> string) \<Rightarrow> nat \<times> song \<Rightarrow> song" where
  "imported_song ids = (\<lambda>(n, s). s\<lparr>id_field := Some (ids n)\<rparr>)"

text \<open>
  \<open>filteredSongs\<close> is derived from the current filter predicate: it is what the filter
  function yields for \<open>songs\<close> and the query now in the search box and the checkboxes.
\<close>

definition derived :: "songManager \<Rightarrow> bool" where
  "derived sm =
     (readFiltered sm =
        applyFilters (songs sm) (searchInputValue sm) (typeChecked sm) (stateChecked sm))"

text \<open>
  \<open>unquote f\<close> is \<open>f\<close> without its double quotes. A song is \<open>exportable\<close> when its
  texts hold no line feed, its song and artist names hold no double quote and have no
  white space at either end, and its state and type are values of the enumerations.
  \<open>reimported newId s\<close> is the draft expected from the exported row of \<open>s\<close>.
\<close>

definition unquote :: "string \<Rightarrow> string" where
  "unquote f = filter (\<lambda>c. c \<noteq> dquote) f"

definition exportable :: "song \<Rightarrow> bool" where
  "exportable s =
     (newline \<notin> set (songName s) \<and> newline \<notin> set (artistName s) \<and>
      newline \<notin> set (or_empty (comments s)) \<and> newline \<notin> set (or_empty (youtubeLink s)) \<and>
      dquote \<notin> set (songName s) \<and> dquote \<notin> set (artistName s) \<and>
      trim (songName s) = songName s \<and> trim (artistName s) = artistName s \<and>
      state s \<in> set (map fst stateMap) \<and> type s \<in> set (map fst typeMap))"

definition reimported :: "string \<Rightarrow> song \<Rightarrow> song" where
  "reimported newId s =
     \<lparr>id_field = Some newId, artistName = artistName s, songName = songName s,
      youtubeLink = Some (trim (unquote (or_empty (youtubeLink s)))),
      state = state s, type = type s,
      comments = Some (trim (unquote (or_empty (comments s)))),
      createdAt = None, updatedAt = None\<rparr>"

section \<open>Example data\<close>

definition song_a :: song where
  "song_a = \<lparr>id_field = Some ''a1'', artistName = ''Abc'', songName = ''Xyz'',
              youtubeLink = Some ''http://x'', state = ''Aprobado'', type = ''Lento'',
              comments = Some ''Great'', createdAt = None, updatedAt = None\<rparr>"

definition song_b :: song where
  "song_b = \<lparr>id_field = Some ''b2'', artistName = ''Smith, John'', songName = ''Song One'',
              youtubeLink = None, state = ''Listo'', type = ''Movido'',
              comments = None, createdAt = None, updatedAt = None\<rparr>"

definition song_c :: song where
  "song_c = \<lparr>id_field = Some ''c3'', artistName = ''abc'', songName = ''xyz'',
              youtubeLink = Some [], state = ''Por aprobar'', type = ''Lento'',
              comments = Some [], createdAt = None, updatedAt = None\<rparr>"

text \<open>
  A backend that fails its second request (request number 1) and names the document of
  request \<open>n\<close> by \<open>n\<close> letters after \<open>doc\<close>; an adapter that is ready, and one that is not.
\<close>

definition fs0 :: firestore where
  "fs0 = \<lparr>docs = [], served = 0, rejects = (\<lambda>n. n = 1),
          autoId = (\<lambda>n. ''doc'' @ replicate n (CHR ''x''))\<rparr>"

definition fm_ready :: firebaseManager where
  "fm_ready = \<lparr>isInitialized = True, db = fs0, localStorage = None, console = []\<rparr>"

definition fm_not_ready :: firebaseManager where
  "fm_not_ready = \<lparr>isInitialized = False, db = fs0, localStorage = Some [song_a], console = []\<rparr>"

text \<open>
  Five legacy records, and a ready adapter whose remote store already holds five records
  that are not the legacy ones; a ready adapter with two legacy records over an empty
  remote store.
\<close>

definition legacy5 :: "song list" where
  "legacy5 = [song_a, song_b, song_c, song_a\<lparr>songName := ''Four''\<rparr>, song_b\<lparr>songName := ''Five''\<rparr>]"

definition other5 :: "(string \<times> song) list" where
  "other5 = map (\<lambda>k. (replicate (Suc k) (CHR ''r''),
                       song_c\<lparr>id_field := None, songName := replicate (Suc k) (CHR ''z'')\<rparr>))
              [0, 1, 2, 3, 4]"

definition fm_five :: firebaseManager where
  "fm_five = \<lparr>isInitialized = True, db = fs0\<lparr>docs := other5\<rparr>,
              localStorage = Some legacy5, console = []\<rparr>"

definition fm_legacy :: firebaseManager where
  "fm_legacy = \<lparr>isInitialized = True, db = fs0, localStorage = Some [song_a, song_b],
                console = []\<rparr>"

text \<open>An orchestrator over the adapter that holds a legacy list, before the initial load.\<close>

definition sm_start :: songManager where
  "sm_start = \<lparr>firebaseManager = fm_legacy, songs = [], filteredSongs = OwnArray [],
                currentEditId = None, songToDelete = None, cachedArtists = None,
                searchInputValue = [], typeChecked = [], stateChecked = [], dialogs = []\<rparr>"

text \<open>
  An orchestrator with an empty mirror over the ready adapter whose backend fails its
  second request, and a CSV text of three rows.
\<close>

definition sm_ready :: songManager where
  "sm_ready = \<lparr>firebaseManager = fm_ready, songs = [], filteredSongs = OwnArray [],
                currentEditId = None, songToDelete = None, cachedArtists = None,
                searchInputValue = [], typeChecked = [], stateChecked = [], dialogs = []\<rparr>"

definition csv3 :: string where
  "csv3 = ''Nombre,Artista,Estado,Tipo,Comentarios,YouTube'' @ [newline] @
          ''One,Ann,Listo,Lento,,'' @ [newline] @
          ''Two,Bob,Listo,Movido,,'' @ [newline] @
          ''Three,Cy,Aprobado,Lento,,''"

text \<open>
  An orchestrator showing the search \<open>great\<close>: the mirror holds two records, both stored
  remotely, and the view holds the one whose comment matches.
\<close>

definition sm_view :: songManager where
  "sm_view = \<lparr>firebaseManager =
                 fm_ready\<lparr>db := fs0\<lparr>docs := [(''a1'', song_a\<lparr>id_field := None\<rparr>),
                                               (''b2'', song_b\<lparr>id_field := None\<rparr>)]\<rparr>\<rparr>,
               songs = [song_a, song_b], filteredSongs = OwnArray [song_a],
               currentEditId = None, songToDelete = None, cachedArtists = None,
               searchInputValue = ''great'', typeChecked = [], stateChecked = [], dialogs = []\<rparr>"

text \<open>
  The same orchestrator when the next request is the one the backend rejects.
\<close>

definition sm_view_down :: songManager where
  "sm_view_down =
     sm_view\<lparr>firebaseManager :=
       (firebaseManager sm_view)\<lparr>db := (db (firebaseManager sm_view))\<lparr>served := 1\<rparr>\<rparr>\<rparr>"

section \<open>Properties of the filter engine\<close>

lemma toLowerCase_Nil_iff: "toLowerCase s = [] \<longleftrightarrow> s = []"
  by (simp add: toLowerCase_def)

lemma str_includes_sublist: "str_includes hay needle \<longleftrightarrow> sublist needle hay"
  by (induction hay) (auto simp: sublist_Cons_right)

lemma str_includes_ci: "str_includes (toLowerCase f) (toLowerCase q) \<longleftrightarrow> ci_substring q f"
  by (simp add: str_includes_sublist sublist_def ci_substring_def)

lemma ci_substring_Nil_right: "ci_substring q [] \<longleftrightarrow> q = []"
  by (simp add: ci_substring_def toLowerCase_def)

lemma matchesSearch_spec:
  "matchesSearch (toLowerCase q) s \<longleftrightarrow>
     (q = [] \<or> ci_substring q (artistName s) \<or> ci_substring q (songName s) \<or>
      (\<exists>c. comments s = Some c \<and> ci_substring q c))"
  by (cases "comments s")
     (auto simp: matchesSearch_def str_includes_ci toLowerCase_Nil_iff ci_substring_Nil_right)

lemma arr_includes_set: "arr_includes arr x \<longleftrightarrow> x \<in> set arr"
  by (induction arr) auto

lemma matchesType_spec: "matchesType ts s \<longleftrightarrow> (set ts = {} \<or> type s \<in> set ts)"
  by (simp add: matchesType_def arr_includes_set)

lemma matchesState_spec: "matchesState ss s \<longleftrightarrow> (set ss = {} \<or> state s \<in> set ss)"
  by (simp add: matchesState_def arr_includes_set)

lemma searchSongs_search_spec:
  "(q = [] \<or>
    str_includes (toLowerCase (songName s)) (toLowerCase q) \<or>
    str_includes (toLowerCase (artistName s)) (toLowerCase q) \<or>
    (case comments s of
       None \<Rightarrow> False
     | Some c \<Rightarrow> c \<noteq> [] \<and> str_includes (toLowerCase c) (toLowerCase q))) \<longleftrightarrow>
   matchesSearch (toLowerCase q) s"
  by (auto simp: matchesSearch_def toLowerCase_Nil_iff split: option.splits)

text \<open>
  C1. For every list of songs and every query (search text, selected types, selected
  states) the filter operation returns exactly the sub-sequence of the input, in the
  original order, of the songs that match the specification's rule: the search text is
  empty or a case-insensitive substring of the artist name, the song name or the comments,
  and the type set is empty or holds the song's type, and the state set is empty or holds
  the song's state. Both filters of the repository do so: \<open>applyFilters\<close> over the
  in-memory mirror, and \<open>searchSongs\<close> over the locally stored list when the three
  criteria are given.
\<close>

theorem C1_applyFilters_spec:
  "applyFilters catalog searchValue selectedTypes selectedStates =
     filter (spec_matches \<lparr>searchText = searchValue, q_types = set selectedTypes,
                              q_states = set selectedStates\<rparr>) catalog
   \<and> subseq (applyFilters catalog searchValue selectedTypes selectedStates) catalog
   \<and> searchSongs catalog \<lparr>search = Some searchValue, types = Some selectedTypes,
                            states = Some selectedStates\<rparr> =
     filter (spec_matches \<lparr>searchText = searchValue, q_types = set selectedTypes,
                              q_states = set selectedStates\<rparr>) catalog"
proof -
  let ?q = "\<lparr>searchText = searchValue, q_types = set selectedTypes,
             q_states = set selectedStates\<rparr>"
  have pred: "(matchesSearch (toLowerCase searchValue) s \<and> matchesType selectedTypes s \<and>
               matchesState selectedStates s) = spec_matches ?q s" for s
    unfolding matchesSearch_spec matchesType_spec matchesState_spec spec_matches_def
    by simp
  have app: "applyFilters catalog searchValue selectedTypes selectedStates =
               filter (spec_matches ?q) catalog"
    unfolding applyFilters_def Let_def pred ..
  have "searchSongs catalog \<lparr>search = Some searchValue, types = Some selectedTypes,
          states = Some selectedStates\<rparr> =
        filter (\<lambda>s. matchesSearch (toLowerCase searchValue) s \<and>
                        matchesType selectedTypes s \<and> matchesState selectedStates s) catalog"
    by (simp add: searchSongs_def searchSongs_search_spec matchesType_def matchesState_def)
  then have sea: "searchSongs catalog \<lparr>search = Some searchValue, types = Some selectedTypes,
          states = Some selectedStates\<rparr> = filter (spec_matches ?q) catalog"
    unfolding pred .
  show ?thesis
    using app sea by simp
qed

theorem C1_applyFilters_spec_witness:
  "filter (spec_matches \<lparr>searchText = ''SMITH'', q_types = {''Movido''}, q_states = {}\<rparr>)
     [song_a, song_b, song_c] = [song_b]
   \<and> filter (spec_matches \<lparr>searchText = ''great'', q_types = {}, q_states = {''Aprobado'', ''Listo''}\<rparr>)
     [song_a, song_b, song_c] = [song_a]"
proof -
  have "applyFilters [song_a, song_b, song_c] ''SMITH'' [''Movido''] [] = [song_b]"
    by code_simp
  moreover have "applyFilters [song_a, song_b, song_c] ''great'' [] [''Aprobado'', ''Listo''] = [song_a]"
    by code_simp
  ultimately show ?thesis
    using C1_applyFilters_spec [of "[song_a, song_b, song_c]" "''SMITH''" "[''Movido'']" "[]"]
          C1_applyFilters_spec [of "[song_a, song_b, song_c]" "''great''" "[]" "[''Aprobado'', ''Listo'']"]
    by simp
qed

section \<open>Properties of the CSV line parser\<close>

lemma parseCSVLine_loop_no_quote:
  "\<forall>f\<in>set result. dquote \<notin> set f \<Longrightarrow> dquote \<notin> set current \<Longrightarrow>
   \<forall>f\<in>set (parseCSVLine_loop line result current inQuotes). dquote \<notin> set f"
  by (induction line result current inQuotes rule: parseCSVLine_loop.induct) auto

lemma parseCSVLine_loop_doubled:
  "parseCSVLine_loop (pre @ [dquote, dquote] @ post) result current inQuotes =
   parseCSVLine_loop (pre @ post) result current inQuotes"
  by (induction pre arbitrary: result current inQuotes) auto

text \<open>
  C10. No field returned by the CSV line parser contains a double quote: a quote only
  toggles the in-quotes state and is never appended to the current field. So a doubled
  quote in the input is not restored to a literal quote: it parses as if it were absent.
\<close>

theorem C10_parseCSVLine_no_quote:
  "(\<forall>f\<in>set (parseCSVLine line). dquote \<notin> set f) \<and>
   parseCSVLine (pre @ [dquote, dquote] @ post) = parseCSVLine (pre @ post)"
  unfolding parseCSVLine_def
  using parseCSVLine_loop_no_quote [of "[]" "[]" line False] parseCSVLine_loop_doubled
  by simp

theorem C10_parseCSVLine_no_quote_witness:
  "''ab'' \<in> set (parseCSVLine [dquote, CHR ''a'', dquote, dquote, CHR ''b'', dquote, comma, CHR ''c''])
   \<and> dquote \<notin> set (parseCSVLine [dquote, CHR ''a'', dquote, dquote, CHR ''b'', dquote, comma, CHR ''c''] ! 0)
   \<and> parseCSVLine ([CHR ''a''] @ [dquote, dquote] @ [CHR ''b'']) = [''ab'']"
proof -
  let ?l = "[dquote, CHR ''a'', dquote, dquote, CHR ''b'', dquote, comma, CHR ''c'']"
  have v: "parseCSVLine ?l = [''ab'', ''c'']"
    by (simp add: parseCSVLine_def)
  have "\<forall>f\<in>set (parseCSVLine ?l). dquote \<notin> set f"
    using C10_parseCSVLine_no_quote [of ?l] by blast
  then have "dquote \<notin> set (parseCSVLine ?l ! 0)"
    using v by simp
  moreover have "parseCSVLine ([CHR ''a''] @ [dquote, dquote] @ [CHR ''b'']) = parseCSVLine (''a'' @ ''b'')"
    using C10_parseCSVLine_no_quote [of "[]" "''a''" "''b''"] by blast
  moreover have "parseCSVLine (''a'' @ ''b'') = [''ab'']"
    by (simp add: parseCSVLine_def)
  ultimately show ?thesis using v by simp
qed

text \<open>
  The quoted-field example: a row of six fields, two of them quoted and holding a comma,
  parses to exactly six fields with the commas kept as text.
\<close>

lemma parseCSVLine_quoted_example:
  "parseCSVLine ([dquote] @ ''Smith, John'' @ [dquote] @ '',Song One,Approved,Slow,'' @
                 [dquote] @ ''Great, is it not'' @ [dquote] @ '',http://x'') =
     [''Smith, John'', ''Song One'', ''Approved'', ''Slow'', ''Great, is it not'', ''http://x'']"
  by (simp add: parseCSVLine_def)

section \<open>Properties of the duplicate filter\<close>

lemma filterDuplicates_spec:
  "filterDuplicates cs ex = filter (\<lambda>c. \<forall>e\<in>set ex. \<not> same_pair e c) cs"
  by (simp add: filterDuplicates_def same_pair_def list_ex_iff)

text \<open>
  C5. The duplicate filter returns exactly the subsequence of the candidates whose
  (artistName, songName) pair, compared case-insensitively, matches no record of the
  existing catalog. Candidates are not compared with each other: a candidate that the
  catalog does not hold is kept as often as it occurs. An existing record with artist Abc
  and song Xyz excludes a candidate whose artist and song are abc and xyz in any case.
\<close>

theorem C5_filterDuplicates:
  "filterDuplicates candidates existing =
     filter (\<lambda>c. \<forall>e\<in>set existing. \<not> same_pair e c) candidates
   \<and> subseq (filterDuplicates candidates existing) candidates
   \<and> ((\<forall>e\<in>set existing. \<not> same_pair e c) \<longrightarrow> filterDuplicates [c, c] existing = [c, c])
   \<and> (toLowerCase (artistName c) = ''abc'' \<and> toLowerCase (songName c) = ''xyz'' \<and>
        artistName e = ''Abc'' \<and> songName e = ''Xyz'' \<longrightarrow> filterDuplicates [c] [e] = [])"
proof -
  have low: "toLowerCase ''Abc'' = ''abc''" "toLowerCase ''Xyz'' = ''xyz''"
    by code_simp+
  show ?thesis
    unfolding filterDuplicates_spec by (auto simp: same_pair_def low)
qed

theorem C5_filterDuplicates_witness:
  "filterDuplicates [song_c, song_b, song_b] [song_a] = [song_b, song_b]
   \<and> filterDuplicates [song_c] [song_a] = []
   \<and> \<not> same_pair song_a song_b"
proof -
  have ab: "\<not> same_pair song_a song_b"
    by code_simp
  then have "\<forall>e\<in>set [song_a]. \<not> same_pair e song_b"
    by simp
  then have bb: "filterDuplicates [song_b, song_b] [song_a] = [song_b, song_b]"
    using C5_filterDuplicates [of _ "[song_a]" song_b] by blast
  have low: "toLowerCase (artistName song_c) = ''abc''" "toLowerCase (songName song_c) = ''xyz''"
    by code_simp+
  have "artistName song_a = ''Abc''" "songName song_a = ''Xyz''"
    by (simp_all add: song_a_def)
  with low have c: "filterDuplicates [song_c] [song_a] = []"
    using C5_filterDuplicates [of _ _ song_c song_a] by blast
  have "filterDuplicates [song_c, song_b, song_b] [song_a] =
          filterDuplicates [song_c] [song_a] @ filterDuplicates [song_b, song_b] [song_a]"
    by (simp add: filterDuplicates_def)
  then show ?thesis
    using ab bb c by simp
qed

section \<open>Properties of the remote store adapter\<close>

text \<open>
  C2. The adapter's create operation strips a client-supplied id before persisting,
  attaches the server's creation and update timestamps to the persisted record, and
  returns the draft's remaining fields with the store-assigned id. Whatever the outcome,
  the collection is either unchanged or extended by one record without an id field.
\<close>

theorem C2_addSong_strips_id:
  "(isInitialized fm \<and> \<not> rejects (db fm) (served (db fm)) \<longrightarrow>
      addSong fm draft =
        (Inr (draft\<lparr>id_field := Some (autoId (db fm) (served (db fm)))\<rparr>),
         fm\<lparr>db := (db fm)\<lparr>docs := docs (db fm) @
                    [(autoId (db fm) (served (db fm)),
                      draft\<lparr>id_field := None,
                            createdAt := Some (Time (served (db fm))),
                            updatedAt := Some (Time (served (db fm)))\<rparr>)],
                  served := Suc (served (db fm))\<rparr>\<rparr>))
   \<and> (docs (db (snd (addSong fm draft))) = docs (db fm) \<or>
       (\<exists>i d. docs (db (snd (addSong fm draft))) = docs (db fm) @ [(i, d)] \<and>
              id_field d = None))"
  by (simp add: addSong_def collection_add_def Let_def resolve_def resolve_time_def
        console_error_def)

theorem C2_addSong_strips_id_witness:
  "fst (addSong fm_ready song_a) = Inr (song_a\<lparr>id_field := Some ''doc''\<rparr>)
   \<and> docs (db (snd (addSong fm_ready song_a))) =
       [(''doc'', song_a\<lparr>id_field := None, createdAt := Some (Time 0), updatedAt := Some (Time 0)\<rparr>)]
   \<and> id_field song_a = Some ''a1''"
proof -
  have h: "isInitialized fm_ready \<and> \<not> rejects (db fm_ready) (served (db fm_ready))"
    by (simp add: fm_ready_def fs0_def)
  have v: "autoId (db fm_ready) 0 = ''doc''" "served (db fm_ready) = 0"
      "docs (db fm_ready) = []"
    by (simp_all add: fm_ready_def fs0_def)
  have "addSong fm_ready song_a =
        (Inr (song_a\<lparr>id_field := Some (autoId (db fm_ready) (served (db fm_ready)))\<rparr>),
         fm_ready\<lparr>db := (db fm_ready)\<lparr>docs := docs (db fm_ready) @
                    [(autoId (db fm_ready) (served (db fm_ready)),
                      song_a\<lparr>id_field := None,
                            createdAt := Some (Time (served (db fm_ready))),
                            updatedAt := Some (Time (served (db fm_ready)))\<rparr>)],
                  served := Suc (served (db fm_ready))\<rparr>\<rparr>)"
    using C2_addSong_strips_id [of fm_ready song_a] h by blast
  then show ?thesis
    by (simp add: v song_a_def)
qed

text \<open>
  C3. While the readiness flag is not set, every operation of the adapter (list, create,
  update, delete, the migration routine, and the bulk save) rejects with StoreUnavailable
  and leaves the world as it was: no request reaches the remote store, nothing is logged.
\<close>

theorem C3_not_ready_rejects:
  "\<not> isInitialized fm \<Longrightarrow>
     loadSongs fm = (Inl StoreUnavailable, fm) \<and>
     addSong fm draft = (Inl StoreUnavailable, fm) \<and>
     updateSong fm songId upd = (Inl StoreUnavailable, fm) \<and>
     deleteSong fm songId = (Inl StoreUnavailable, fm) \<and>
     migrateFromLocalStorage fm = (Inl StoreUnavailable, fm) \<and>
     saveSongs fm list = (Inl StoreUnavailable, fm)"
  by (simp add: loadSongs_def addSong_def updateSong_def deleteSong_def
        migrateFromLocalStorage_def saveSongs_def)

theorem C3_not_ready_rejects_witness:
  "\<not> isInitialized fm_not_ready \<and>
   fst (addSong fm_not_ready song_b) = Inl StoreUnavailable \<and>
   docs (db (snd (addSong fm_not_ready song_b))) = [] \<and>
   served (db (snd (addSong fm_not_ready song_b))) = 0 \<and>
   fst (migrateFromLocalStorage fm_not_ready) = Inl StoreUnavailable \<and>
   served (db (snd (migrateFromLocalStorage fm_not_ready))) = 0 \<and>
   fst (loadSongs fm_not_ready) = Inl StoreUnavailable \<and>
   fst (deleteSong fm_not_ready (Some ''a1'')) = Inl StoreUnavailable \<and>
   fst (updateSong fm_not_ready (Some ''a1'') song_a) = Inl StoreUnavailable"
proof -
  have h: "\<not> isInitialized fm_not_ready"
    by (simp add: fm_not_ready_def)
  have "docs (db fm_not_ready) = []" "served (db fm_not_ready) = 0"
    by (simp_all add: fm_not_ready_def fs0_def)
  then show ?thesis
    using h C3_not_ready_rejects [OF h, of song_b "Some ''a1''" song_a "[]"]
    by simp
qed

section \<open>Properties of the migration guard\<close>

lemma migrate_loop_result:
  "migrate_loop ls fm =
     fm\<lparr>db := (db fm)\<lparr>docs := docs (db fm) @
                  map (migrated_doc (autoId (db fm)))
                    (filter (\<lambda>(n, s). \<not> rejects (db fm) n) (enumerate (served (db fm)) ls)),
                served := served (db fm) + length ls\<rparr>,
        console := console fm @
          replicate (length (filter (\<lambda>(n, s). rejects (db fm) n) (enumerate (served (db fm)) ls)))
            MigrateItemError\<rparr>"
proof (induction ls arbitrary: fm)
  case Nil
  show ?case by simp
next
  case (Cons s ls)
  show ?case
    by (simp add: Cons.IH collection_add_def Let_def console_error_def migrated_doc_def
          resolve_def resolve_time_def replicate_app_Cons_same)
qed


text \<open>
  C8. The migration guard of a ready adapter does nothing when the legacy list is empty.
  When the list is not empty and the count query answers, it skips the migration if the
  remote store already holds at least as many records as the legacy list, whatever those
  records are: only the count query has been served. Otherwise it issues one create per
  legacy record, in order, each with the local id stripped and the server's timestamps;
  a create that fails is logged and the loop goes on, and the guard returns normally.
\<close>

theorem C8_migration_guard:
  "isInitialized fm \<Longrightarrow>
   (legacy_list fm = [] \<longrightarrow> migrateFromLocalStorage fm = (Inr (), fm)) \<and>
   (legacy_list fm \<noteq> [] \<and> \<not> rejects (db fm) (served (db fm)) \<and>
      length (legacy_list fm) \<le> length (docs (db fm)) \<longrightarrow>
        migrateFromLocalStorage fm =
          (Inr (), fm\<lparr>db := (db fm)\<lparr>served := Suc (served (db fm))\<rparr>\<rparr>)) \<and>
   (legacy_list fm \<noteq> [] \<and> \<not> rejects (db fm) (served (db fm)) \<and>
      length (docs (db fm)) < length (legacy_list fm) \<longrightarrow>
        migrateFromLocalStorage fm =
          (Inr (),
           fm\<lparr>db := (db fm)\<lparr>docs := docs (db fm) @
                        map (migrated_doc (autoId (db fm)))
                          (filter (\<lambda>(n, s). \<not> rejects (db fm) n)
                             (enumerate (Suc (served (db fm))) (legacy_list fm))),
                      served := Suc (served (db fm)) + length (legacy_list fm)\<rparr>,
              console := console fm @
                replicate (length (filter (\<lambda>(n, s). rejects (db fm) n)
                                     (enumerate (Suc (served (db fm))) (legacy_list fm))))
                  MigrateItemError\<rparr>))"
  by (simp add: migrateFromLocalStorage_def collection_get_def Let_def migrate_loop_result)

theorem C8_migration_guard_witness:
  "length (legacy_list fm_five) = 5 \<and> length (docs (db fm_five)) = 5 \<and>
   set (map snd (docs (db fm_five))) \<inter> set (map (\<lambda>s. s\<lparr>id_field := None\<rparr>) (legacy_list fm_five)) = {} \<and>
   fst (migrateFromLocalStorage fm_five) = Inr () \<and>
   docs (db (snd (migrateFromLocalStorage fm_five))) = docs (db fm_five) \<and>
   fst (migrateFromLocalStorage (fm_five\<lparr>localStorage := None\<rparr>)) = Inr () \<and>
   served (db (snd (migrateFromLocalStorage (fm_five\<lparr>localStorage := None\<rparr>)))) = 0 \<and>
   fst (migrateFromLocalStorage fm_legacy) = Inr () \<and>
   docs (db (snd (migrateFromLocalStorage fm_legacy))) =
     [(''docxx'', song_b\<lparr>id_field := None, createdAt := Some (Time 2), updatedAt := Some (Time 2)\<rparr>)] \<and>
   console (snd (migrateFromLocalStorage fm_legacy)) = [MigrateItemError]"
proof -
  have five: "isInitialized fm_five" "legacy_list fm_five \<noteq> []"
      "\<not> rejects (db fm_five) (served (db fm_five))"
      "length (legacy_list fm_five) = 5" "length (docs (db fm_five)) = 5"
    by (simp_all add: fm_five_def fs0_def legacy_list_def legacy5_def other5_def)
  have disj: "set (map snd (docs (db fm_five))) \<inter>
                set (map (\<lambda>s. s\<lparr>id_field := None\<rparr>) (legacy_list fm_five)) = {}"
    by (simp add: fm_five_def fs0_def legacy_list_def legacy5_def other5_def
          song_a_def song_b_def song_c_def)
  have skip: "migrateFromLocalStorage fm_five =
                (Inr (), fm_five\<lparr>db := (db fm_five)\<lparr>served := Suc (served (db fm_five))\<rparr>\<rparr>)"
    using C8_migration_guard [of fm_five] five by simp
  have none: "isInitialized (fm_five\<lparr>localStorage := None\<rparr>)"
      "legacy_list (fm_five\<lparr>localStorage := None\<rparr>) = []"
      "served (db fm_five) = 0"
    by (simp_all add: fm_five_def fs0_def legacy_list_def)
  have noop: "migrateFromLocalStorage (fm_five\<lparr>localStorage := None\<rparr>) =
                (Inr (), fm_five\<lparr>localStorage := None\<rparr>)"
    using C8_migration_guard [of "fm_five\<lparr>localStorage := None\<rparr>"] none by simp
  have leg: "isInitialized fm_legacy" "legacy_list fm_legacy = [song_a, song_b]"
      "\<not> rejects (db fm_legacy) (served (db fm_legacy))"
      "docs (db fm_legacy) = []" "served (db fm_legacy) = 0" "console fm_legacy = []"
      "rejects (db fm_legacy) = (\<lambda>n. n = 1)"
      "autoId (db fm_legacy) = (\<lambda>n. ''doc'' @ replicate n (CHR ''x''))"
    by (simp_all add: fm_legacy_def fs0_def legacy_list_def)
  have run: "migrateFromLocalStorage fm_legacy =
          (Inr (),
           fm_legacy\<lparr>db := (db fm_legacy)\<lparr>docs := docs (db fm_legacy) @
                        map (migrated_doc (autoId (db fm_legacy)))
                          (filter (\<lambda>(n, s). \<not> rejects (db fm_legacy) n)
                             (enumerate (Suc (served (db fm_legacy))) (legacy_list fm_legacy))),
                      served := Suc (served (db fm_legacy)) + length (legacy_list fm_legacy)\<rparr>,
              console := console fm_legacy @
                replicate (length (filter (\<lambda>(n, s). rejects (db fm_legacy) n)
                                     (enumerate (Suc (served (db fm_legacy))) (legacy_list fm_legacy))))
                  MigrateItemError\<rparr>)"
    using C8_migration_guard [of fm_legacy] leg by simp
  have run_docs: "docs (db (snd (migrateFromLocalStorage fm_legacy))) =
     [(''docxx'', song_b\<lparr>id_field := None, createdAt := Some (Time 2), updatedAt := Some (Time 2)\<rparr>)]"
    unfolding run by (simp add: leg migrated_doc_def numeral_2_eq_2)
  have run_console: "console (snd (migrateFromLocalStorage fm_legacy)) = [MigrateItemError]"
    unfolding run by (simp add: leg)
  show ?thesis
    using five disj run_docs run_console
    by (simp add: skip noop none run)
qed

section \<open>Properties of the initial load\<close>

lemma waitForFirebaseInit_ready: "isInitialized fm \<Longrightarrow> waitForFirebaseInit fm = Some ()"
  by (subst waitForFirebaseInit.simps) simp

lemma waitForFirebaseInit_Some: "waitForFirebaseInit fm = Some u \<Longrightarrow> isInitialized fm"
  by (rule waitForFirebaseInit.raw_induct [where P = "\<lambda>fm u. isInitialized fm"])
     (auto split: if_splits)

lemma waitForFirebaseInit_never: "\<not> isInitialized fm \<Longrightarrow> waitForFirebaseInit fm = None"
  using waitForFirebaseInit_Some [of fm] by (cases "waitForFirebaseInit fm") auto

lemma legacy_list_clearLegacy: "legacy_list (firebaseManager (clearLegacy sm)) = []"
  by (simp add: clearLegacy_def Let_def legacy_list_def split: option.splits)

lemma clearLegacy_frame:
  "isInitialized (firebaseManager (clearLegacy sm)) = isInitialized (firebaseManager sm)"
  "db (firebaseManager (clearLegacy sm)) = db (firebaseManager sm)"
  "console (firebaseManager (clearLegacy sm)) = console (firebaseManager sm)"
  by (simp_all add: clearLegacy_def Let_def)


lemma migrate_after_clearLegacy:
  "isInitialized (firebaseManager sm) \<Longrightarrow>
   migrateFromLocalStorage (firebaseManager (clearLegacy sm)) =
     (Inr (), firebaseManager (clearLegacy sm))"
  by (simp add: migrateFromLocalStorage_def legacy_list_clearLegacy clearLegacy_frame)

lemma loadSongs_frame:
  "isInitialized fm \<Longrightarrow>
   docs (db (snd (loadSongs fm))) = docs (db fm) \<and>
   served (db (snd (loadSongs fm))) = Suc (served (db fm)) \<and>
   localStorage (snd (loadSongs fm)) = localStorage fm"
  by (simp add: loadSongs_def collection_get_ordered_def Let_def console_error_def)

lemma load_failed_frame:
  "db (firebaseManager (load_failed sm)) = db (firebaseManager sm)"
  "localStorage (firebaseManager (load_failed sm)) = localStorage (firebaseManager sm)"
  by (simp_all add: load_failed_def alert_def log_error_def console_error_def)

lemma loadAfterInit_eq:
  "isInitialized (firebaseManager sm) \<Longrightarrow>
   loadAfterInit sm =
     (case loadSongs (firebaseManager (clearLegacy sm)) of
        (Inl e, fm'') \<Rightarrow> load_failed ((clearLegacy sm)\<lparr>firebaseManager := fm''\<rparr>)
      | (Inr loaded, fm'') \<Rightarrow>
          (clearLegacy sm)\<lparr>firebaseManager := fm'', songs := loaded, filteredSongs := SameArray\<rparr>)"
  by (simp add: loadAfterInit_def Let_def migrate_after_clearLegacy)

lemma loadAfterInit_frame:
  assumes "isInitialized (firebaseManager sm)"
  shows "docs (db (firebaseManager (loadAfterInit sm))) = docs (db (firebaseManager sm))"
    and "served (db (firebaseManager (loadAfterInit sm))) = Suc (served (db (firebaseManager sm)))"
    and "legacy_list (firebaseManager (loadAfterInit sm)) = []"
proof -
  let ?fm = "firebaseManager (clearLegacy sm)"
  have init: "isInitialized ?fm"
    using assms by (simp add: clearLegacy_frame)
  obtain r fm'' where ls: "loadSongs ?fm = (r, fm'')"
    by (cases "loadSongs ?fm")
  have fr: "docs (db fm'') = docs (db (firebaseManager sm))"
      "served (db fm'') = Suc (served (db (firebaseManager sm)))"
      "localStorage fm'' = localStorage ?fm"
    using loadSongs_frame [OF init] ls by (simp_all add: clearLegacy_frame)
  have leg: "legacy_list fm'' = []"
    using legacy_list_clearLegacy [of sm] fr(3) by (simp add: legacy_list_def)
  show "docs (db (firebaseManager (loadAfterInit sm))) = docs (db (firebaseManager sm))"
    using fr by (cases r) (simp_all add: loadAfterInit_eq [OF assms] ls load_failed_frame)
  show "served (db (firebaseManager (loadAfterInit sm))) = Suc (served (db (firebaseManager sm)))"
    using fr by (cases r) (simp_all add: loadAfterInit_eq [OF assms] ls load_failed_frame)
  show "legacy_list (firebaseManager (loadAfterInit sm)) = []"
    using leg by (cases r) (simp_all add: loadAfterInit_eq [OF assms] ls load_failed_frame legacy_list_def)
qed

text \<open>
  C9. In the initial-load flow of a ready adapter, a non-empty legacy list is removed from
  local storage before the migration guard is invoked. So the guard, invoked from this
  flow, reads an empty legacy list and returns without a request: the flow ends, the
  remote collection is what it was, the only request served is the listing, and the
  legacy list is gone.
\<close>

theorem C9_initial_load_never_migrates:
  "isInitialized (firebaseManager sm) \<Longrightarrow>
   (legacy_list (firebaseManager sm) \<noteq> [] \<longrightarrow>
      localStorage (firebaseManager (clearLegacy sm)) = None) \<and>
   legacy_list (firebaseManager (clearLegacy sm)) = [] \<and>
   migrateFromLocalStorage (firebaseManager (clearLegacy sm)) =
     (Inr (), firebaseManager (clearLegacy sm)) \<and>
   loadAfterInit sm =
     (case loadSongs (firebaseManager (clearLegacy sm)) of
        (Inl e, fm'') \<Rightarrow> load_failed ((clearLegacy sm)\<lparr>firebaseManager := fm''\<rparr>)
      | (Inr loaded, fm'') \<Rightarrow>
          (clearLegacy sm)\<lparr>firebaseManager := fm'', songs := loaded, filteredSongs := SameArray\<rparr>) \<and>
   loadInitialData sm = Some (loadAfterInit sm) \<and>
   docs (db (firebaseManager (loadAfterInit sm))) = docs (db (firebaseManager sm)) \<and>
   served (db (firebaseManager (loadAfterInit sm))) = Suc (served (db (firebaseManager sm))) \<and>
   legacy_list (firebaseManager (loadAfterInit sm)) = []"
proof -
  assume init: "isInitialized (firebaseManager sm)"
  have "legacy_list (firebaseManager sm) \<noteq> [] \<longrightarrow>
          localStorage (firebaseManager (clearLegacy sm)) = None"
    by (simp add: clearLegacy_def Let_def)
  moreover have "loadInitialData sm = Some (loadAfterInit sm)"
    by (simp add: loadInitialData_def waitForFirebaseInit_ready [OF init])
  ultimately show ?thesis
    using legacy_list_clearLegacy [of sm] migrate_after_clearLegacy [OF init]
      loadAfterInit_eq [OF init] loadAfterInit_frame [OF init]
    by simp
qed

theorem C9_initial_load_never_migrates_witness:
  "legacy_list (firebaseManager sm_start) = [song_a, song_b] \<and>
   docs (db (firebaseManager sm_start)) = [] \<and>
   loadInitialData sm_start = Some (loadAfterInit sm_start) \<and>
   docs (db (firebaseManager (loadAfterInit sm_start))) = [] \<and>
   served (db (firebaseManager (loadAfterInit sm_start))) = 1 \<and>
   localStorage (firebaseManager (clearLegacy sm_start)) = None \<and>
   legacy_list (firebaseManager (loadAfterInit sm_start)) = []"
proof -
  have h: "isInitialized (firebaseManager sm_start)"
      "legacy_list (firebaseManager sm_start) = [song_a, song_b]"
      "docs (db (firebaseManager sm_start)) = []"
      "served (db (firebaseManager sm_start)) = 0"
    by (simp_all add: sm_start_def fm_legacy_def fs0_def legacy_list_def)
  note t = C9_initial_load_never_migrates [OF h(1)]
  have "loadInitialData sm_start = Some (loadAfterInit sm_start)"
    using t by blast
  moreover have "docs (db (firebaseManager (loadAfterInit sm_start))) = []"
    using t h(3) by metis
  moreover have "served (db (firebaseManager (loadAfterInit sm_start))) = 1"
    using t h(4) by (metis One_nat_def)
  moreover have "localStorage (firebaseManager (clearLegacy sm_start)) = None"
  proof -
    have "legacy_list (firebaseManager sm_start) \<noteq> [] \<longrightarrow>
            localStorage (firebaseManager (clearLegacy sm_start)) = None"
      using t by blast
    then show ?thesis by (simp add: h(2))
  qed
  moreover have "legacy_list (firebaseManager (loadAfterInit sm_start)) = []"
    using t by blast
  ultimately show ?thesis
    using h by blast
qed

section \<open>Properties of the bulk import\<close>

lemma import_loop_result:
  "isInitialized (firebaseManager sm) \<Longrightarrow>
   import_loop cs sm =
     sm\<lparr>firebaseManager := (firebaseManager sm)
          \<lparr>db := (db (firebaseManager sm))
             \<lparr>docs := docs (db (firebaseManager sm)) @
                  map (migrated_doc (autoId (db (firebaseManager sm))))
                    (filter (\<lambda>(n, s). \<not> rejects (db (firebaseManager sm)) n)
                       (enumerate (served (db (firebaseManager sm))) cs)),
              served := served (db (firebaseManager sm)) + length cs\<rparr>,
           console := console (firebaseManager sm) @
             concat (map (\<lambda>(n, s). if rejects (db (firebaseManager sm)) n
                                     then [AddError, ImportItemError] else [])
                       (enumerate (served (db (firebaseManager sm))) cs))\<rparr>,
        songs := songs sm @
          map (imported_song (autoId (db (firebaseManager sm))))
            (filter (\<lambda>(n, s). \<not> rejects (db (firebaseManager sm)) n)
               (enumerate (served (db (firebaseManager sm))) cs))\<rparr>"
proof (induction cs arbitrary: sm)
  case Nil
  show ?case by simp
next
  case (Cons s cs)
  show ?case
    using Cons.prems
    by (simp add: Cons.IH addSong_def collection_add_def Let_def console_error_def
          log_error_def migrated_doc_def imported_song_def resolve_def resolve_time_def)
qed

lemma bulkImport_result:
  "isInitialized (firebaseManager sm) \<Longrightarrow>
   songs (bulkImport cs sm) =
     songs sm @ map (imported_song (autoId (db (firebaseManager sm))))
                  (filter (\<lambda>(n, s). \<not> rejects (db (firebaseManager sm)) n)
                     (enumerate (served (db (firebaseManager sm))) cs)) \<and>
   readFiltered (bulkImport cs sm) = songs (bulkImport cs sm) \<and>
   served (db (firebaseManager (bulkImport cs sm))) =
     served (db (firebaseManager sm)) + length cs \<and>
   dialogs (bulkImport cs sm) = dialogs sm @ [AlertImported (length cs)]"
  by (simp add: bulkImport_def alert_def import_loop_result readFiltered_def)

text \<open>
  C4, at three candidates whose second create fails. The creates are issued one after
  the other, the failure is logged and the third create still runs, and the mirror ends
  with the two created records in order. The dialogs, however, report three parsed, three
  new, none skipped, and then three songs imported: the final message counts the accepted
  candidates, not the records inserted, and no failure is reported.
\<close>

theorem C4_bulk_import_report:
  "dialogs (handleFileImport sm_ready (Some (''songs.csv'', csv3)) (\<lambda>i. ''tmp'') True) =
     [Confirm 3 3 0, AlertImported 3] \<and>
   map songName (songs (handleFileImport sm_ready (Some (''songs.csv'', csv3)) (\<lambda>i. ''tmp'') True)) =
     [''One'', ''Three''] \<and>
   map id_field (songs (handleFileImport sm_ready (Some (''songs.csv'', csv3)) (\<lambda>i. ''tmp'') True)) =
     [Some ''doc'', Some ''docxx''] \<and>
   console (firebaseManager
     (handleFileImport sm_ready (Some (''songs.csv'', csv3)) (\<lambda>i. ''tmp'') True)) =
     [AddError, ImportItemError] \<and>
   served (db (firebaseManager
     (handleFileImport sm_ready (Some (''songs.csv'', csv3)) (\<lambda>i. ''tmp'') True))) = 3"
  by code_simp

section \<open>Properties of the filtered view\<close>

lemma subseq_distinct_map:
  assumes "subseq xs ys" and "distinct (map f ys)"
  shows "distinct (map f xs)"
proof -
  obtain N where "xs = nths ys N"
    using assms(1) by (auto simp: subseq_conv_nths)
  then have "map f xs = nths (map f ys) N"
    by (simp add: nths_map)
  then show ?thesis
    using assms(2) by simp
qed

lemma findIndex_None: "findIndex p xs = None \<longleftrightarrow> (\<forall>x\<in>set xs. \<not> p x)"
  by (induction xs) auto

lemma write_at_Suc: "write_at (map_option Suc r) u (y # ys) = y # write_at r u ys"
  by (cases r) (simp_all add: write_at_def)

text \<open>
  Where one key identifies at most one element, writing \<open>u\<close> at the first element with
  the key is the same as replacing every element with the key.
\<close>

lemma write_at_findIndex_map:
  "distinct (map key ys) \<Longrightarrow>
   write_at (findIndex (\<lambda>s. key s = k) ys) u ys = map (\<lambda>s. if key s = k then u else s) ys"
proof (induction ys)
  case Nil
  show ?case by (simp add: write_at_def)
next
  case (Cons y ys)
  show ?case
  proof (cases "key y = k")
    case True
    then have "k \<notin> key ` set ys"
      using Cons.prems by simp
    then have "\<forall>s\<in>set ys. key s \<noteq> k"
      by blast
    then have "map (\<lambda>s. if key s = k then u else s) ys = ys"
      by (simp add: map_idI)
    then show ?thesis
      using True by (simp add: write_at_def)
  next
    case False
    then show ?thesis
      using Cons by (simp add: write_at_Suc)
  qed
qed

lemma applyFilters_empty_query: "applyFilters xs [] [] [] = xs"
  by (simp add: applyFilters_def matchesSearch_def matchesType_def matchesState_def
        toLowerCase_def)

lemma derived_applyFilters_on: "derived (applyFilters_on sm)"
  by (simp add: derived_def applyFilters_on_def readFiltered_def)

lemma derived_query_only:
  "songs sm' = songs sm \<Longrightarrow> filteredSongs sm' = filteredSongs sm \<Longrightarrow>
   searchInputValue sm' = searchInputValue sm \<Longrightarrow> typeChecked sm' = typeChecked sm \<Longrightarrow>
   stateChecked sm' = stateChecked sm \<Longrightarrow> derived sm' = derived sm"
  by (simp add: derived_def readFiltered_def split: view.splits)

lemma derived_hide:
  "derived (hideModal sm) = derived sm" "derived (hideDeleteModal sm) = derived sm"
  by (simp_all add: derived_def readFiltered_def hideModal_def hideDeleteModal_def
        split: view.splits)

lemma derived_failed:
  "derived (alert d (log_error e (sm\<lparr>firebaseManager := fm'\<rparr>))) = derived sm"
  by (simp add: derived_def readFiltered_def alert_def log_error_def split: view.splits)

lemma derived_fm: "derived (sm\<lparr>firebaseManager := fm'\<rparr>) = derived sm"
  by (simp add: derived_def readFiltered_def split: view.splits)

lemma derived_handleSubmit: "derived sm \<Longrightarrow> derived (handleSubmit sm fd)"
  by (auto simp: handleSubmit_def Let_def derived_hide derived_applyFilters_on derived_failed
        split: prod.splits sum.splits)

lemma derived_confirmDelete: "derived sm \<Longrightarrow> derived (confirmDelete sm)"
  by (auto simp: confirmDelete_def Let_def derived_hide derived_applyFilters_on derived_failed
        derived_fm split: prod.splits sum.splits option.splits)


lemma readFiltered_fm: "readFiltered (sm\<lparr>firebaseManager := fm'\<rparr>) = readFiltered sm"
  by (simp add: readFiltered_def split: view.splits)

lemma patch_view:
  "readFiltered (case findIndex p (readFiltered sm) of
                   None \<Rightarrow> sm | Some i \<Rightarrow> write_filtered i u sm) =
     write_at (findIndex p (readFiltered sm)) u (readFiltered sm)"
  "songs (case findIndex p (readFiltered sm) of
            None \<Rightarrow> sm | Some i \<Rightarrow> write_filtered i u sm) =
     (case filteredSongs sm of
        SameArray \<Rightarrow> write_at (findIndex p (songs sm)) u (songs sm)
      | OwnArray xs \<Rightarrow> songs sm)"
  by (auto simp: readFiltered_def write_filtered_def write_at_def
        split: option.splits view.splits)

lemma subseq_updateComment:
  assumes sub: "subseq (readFiltered sm) (songs sm)"
    and dist: "distinct (map id_field (songs sm))"
  shows "subseq (readFiltered (updateComment sm songId comment hasInput))
           (songs (updateComment sm songId comment hasInput))"
proof (cases "find (\<lambda>song. id_field song = Some songId) (songs sm)")
  case None
  then show ?thesis
    using sub by (simp add: updateComment_def)
next
  case (Some song)
  let ?u = "song\<lparr>comments := Some comment\<rparr>"
  let ?f = "\<lambda>s. if id_field s = Some songId then ?u else s"
  obtain r fm' where upd: "updateSong (firebaseManager sm) (Some songId) ?u = (r, fm')"
    by (cases "updateSong (firebaseManager sm) (Some songId) ?u")
  have keep: "subseq (readFiltered (sm\<lparr>firebaseManager := fm'\<rparr>)) (songs (sm\<lparr>firebaseManager := fm'\<rparr>))"
    using sub by (simp add: readFiltered_fm)
  show ?thesis
  proof (cases "hasInput \<and> r = Inr True")
    case False
    then show ?thesis
      using sub keep Some upd
      by (cases r) (auto simp: updateComment_def Let_def log_error_def readFiltered_fm)
  next
    case True
    let ?sm2 = "sm\<lparr>firebaseManager := fm',
                   songs := write_at (findIndex (\<lambda>song. id_field song = Some songId) (songs sm))
                              ?u (songs sm)\<rparr>"
    have res: "updateComment sm songId comment hasInput =
                 (case findIndex (\<lambda>song. id_field song = Some songId) (readFiltered ?sm2) of
                    None \<Rightarrow> ?sm2
                  | Some filteredIndex \<Rightarrow> write_filtered filteredIndex ?u ?sm2)"
      using True Some upd by (simp add: updateComment_def Let_def cong: option.case_cong)
    have songs2: "songs ?sm2 = map ?f (songs sm)"
      using write_at_findIndex_map [OF dist, of "Some songId" ?u] by simp
    show ?thesis
    proof (cases "filteredSongs sm")
      case SameArray
      then show ?thesis
        unfolding res patch_view by (simp add: readFiltered_def split: view.splits)
    next
      case (OwnArray xs)
      have xs: "subseq xs (songs sm)"
        using sub OwnArray by (simp add: readFiltered_def)
      then have "distinct (map id_field xs)"
        using dist by (rule subseq_distinct_map)
      then have "write_at (findIndex (\<lambda>s. id_field s = Some songId) xs) ?u xs = map ?f xs"
        by (rule write_at_findIndex_map)
      moreover have "subseq (map ?f xs) (map ?f (songs sm))"
        using xs by (rule subseq_map)
      ultimately show ?thesis
        unfolding res patch_view using OwnArray songs2
        by (simp add: readFiltered_def split: view.splits)
    qed
  qed
qed


lemma subseq_derived: "derived sm \<Longrightarrow> subseq (readFiltered sm) (songs sm)"
  by (simp add: derived_def applyFilters_def)

lemma readFiltered_failed:
  "readFiltered (alert d (log_error e (sm\<lparr>firebaseManager := fm'\<rparr>))) = readFiltered sm"
  "songs (alert d (log_error e (sm\<lparr>firebaseManager := fm'\<rparr>))) = songs sm"
  by (simp_all add: readFiltered_def alert_def log_error_def split: view.splits)

lemma handleSubmit_view:
  "derived (handleSubmit sm fd) \<or>
   (readFiltered (handleSubmit sm fd) = readFiltered sm \<and> songs (handleSubmit sm fd) = songs sm)"
  by (auto simp: handleSubmit_def Let_def derived_hide derived_applyFilters_on readFiltered_failed
        split: prod.splits sum.splits)

lemma readFiltered_hideDeleteModal:
  "readFiltered (hideDeleteModal sm) = readFiltered sm" "songs (hideDeleteModal sm) = songs sm"
  by (simp_all add: readFiltered_def hideDeleteModal_def split: view.splits)

lemma confirmDelete_view:
  "derived (confirmDelete sm) \<or>
   (readFiltered (confirmDelete sm) = readFiltered sm \<and> songs (confirmDelete sm) = songs sm)"
  by (auto simp: confirmDelete_def Let_def derived_hide derived_applyFilters_on readFiltered_failed
        readFiltered_fm readFiltered_hideDeleteModal
        split: prod.splits sum.splits option.splits)

lemma subseq_handleSubmit:
  "subseq (readFiltered sm) (songs sm) \<Longrightarrow>
   subseq (readFiltered (handleSubmit sm fd)) (songs (handleSubmit sm fd))"
  using handleSubmit_view [of sm fd] subseq_derived by auto

lemma subseq_confirmDelete:
  "subseq (readFiltered sm) (songs sm) \<Longrightarrow>
   subseq (readFiltered (confirmDelete sm)) (songs (confirmDelete sm))"
  using confirmDelete_view [of sm] subseq_derived by auto

lemma handleSubmit_add_ack:
  "\<not> valid_doc_id (currentEditId sm) \<and> addSong (firebaseManager sm) fd = (Inr newSong, fm') \<longrightarrow>
     songs (handleSubmit sm fd) = songs sm @ [newSong] \<and>
     filteredSongs (handleSubmit sm fd) =
       OwnArray (applyFilters (songs sm @ [newSong]) (searchInputValue sm) (typeChecked sm)
                   (stateChecked sm))"
  by (simp add: handleSubmit_def Let_def hideModal_def applyFilters_on_def
        invalidateArtistsCache_def)

lemma handleSubmit_add_fail:
  "\<not> valid_doc_id (currentEditId sm) \<and> addSong (firebaseManager sm) fd = (Inl e, fm') \<longrightarrow>
     songs (handleSubmit sm fd) = songs sm \<and>
     filteredSongs (handleSubmit sm fd) = filteredSongs sm"
  by (simp add: handleSubmit_def alert_def log_error_def)

lemma handleSubmit_update_ack:
  "valid_doc_id (currentEditId sm) \<and>
   updateSong (firebaseManager sm) (currentEditId sm) fd = (Inr True, fm') \<longrightarrow>
     songs (handleSubmit sm fd) =
       write_at (findIndex (\<lambda>song. id_field song = currentEditId sm) (songs sm))
         (fd\<lparr>id_field := currentEditId sm\<rparr>) (songs sm) \<and>
     filteredSongs (handleSubmit sm fd) =
       OwnArray (applyFilters
                   (write_at (findIndex (\<lambda>song. id_field song = currentEditId sm) (songs sm))
                      (fd\<lparr>id_field := currentEditId sm\<rparr>) (songs sm))
                   (searchInputValue sm) (typeChecked sm) (stateChecked sm))"
  by (simp add: handleSubmit_def Let_def hideModal_def applyFilters_on_def
        invalidateArtistsCache_def)

lemma handleSubmit_update_fail:
  "valid_doc_id (currentEditId sm) \<and>
   updateSong (firebaseManager sm) (currentEditId sm) fd = (Inl e, fm') \<longrightarrow>
     songs (handleSubmit sm fd) = songs sm \<and>
     filteredSongs (handleSubmit sm fd) = filteredSongs sm"
  by (simp add: handleSubmit_def alert_def log_error_def)

lemma confirmDelete_ack:
  "songToDelete sm = Some target \<and>
   deleteSong (firebaseManager sm) (id_field target) = (Inr True, fm') \<longrightarrow>
     songs (confirmDelete sm) = filter (\<lambda>song. id_field song \<noteq> id_field target) (songs sm) \<and>
     filteredSongs (confirmDelete sm) =
       OwnArray (applyFilters (filter (\<lambda>song. id_field song \<noteq> id_field target) (songs sm))
                   (searchInputValue sm) (typeChecked sm) (stateChecked sm))"
  by (simp add: confirmDelete_def Let_def hideDeleteModal_def applyFilters_on_def
        invalidateArtistsCache_def assign_songs_def)

lemma confirmDelete_fail:
  "songToDelete sm = Some target \<and>
   deleteSong (firebaseManager sm) (id_field target) = (Inl e, fm') \<longrightarrow>
     songs (confirmDelete sm) = songs sm \<and> filteredSongs (confirmDelete sm) = filteredSongs sm"
  by (simp add: confirmDelete_def alert_def log_error_def)

lemma confirmDelete_none: "songToDelete sm = None \<longrightarrow> confirmDelete sm = sm"
  by (simp add: confirmDelete_def)

lemma query_kept:
  "searchInputValue (handleSubmit sm fd) = searchInputValue sm \<and>
   typeChecked (handleSubmit sm fd) = typeChecked sm \<and>
   stateChecked (handleSubmit sm fd) = stateChecked sm \<and>
   searchInputValue (confirmDelete sm) = searchInputValue sm \<and>
   typeChecked (confirmDelete sm) = typeChecked sm \<and>
   stateChecked (confirmDelete sm) = stateChecked sm \<and>
   searchInputValue (updateComment sm songId comment hasInput) = searchInputValue sm \<and>
   typeChecked (updateComment sm songId comment hasInput) = typeChecked sm \<and>
   stateChecked (updateComment sm songId comment hasInput) = stateChecked sm"
  by (auto simp: handleSubmit_def confirmDelete_def updateComment_def Let_def hideModal_def
        hideDeleteModal_def applyFilters_on_def invalidateArtistsCache_def assign_songs_def
        alert_def log_error_def write_filtered_def
        split: prod.splits sum.splits option.splits view.splits)

lemma findIndex_Some: "findIndex p xs = Some i \<Longrightarrow> i < length xs \<and> p (xs ! i)"
  by (induction xs arbitrary: i) (auto split: if_splits)

lemma findIndex_update:
  "findIndex p xs = Some i \<Longrightarrow> p u \<Longrightarrow> findIndex p (xs[i := u]) = Some i"
  by (induction xs arbitrary: i) (auto split: if_splits)

lemma write_at_again:
  assumes "p u"
  shows "write_at (findIndex p (write_at (findIndex p xs) u xs)) u (write_at (findIndex p xs) u xs) =
         write_at (findIndex p xs) u xs"
proof (cases "findIndex p xs")
  case None
  then show ?thesis by (simp add: write_at_def)
next
  case (Some i)
  then show ?thesis
    using findIndex_update [OF Some assms] by (simp add: write_at_def)
qed

lemma updateComment_ack:
  "find (\<lambda>song. id_field song = Some songId) (songs sm) = Some song \<and> hasInput \<and>
   updateSong (firebaseManager sm) (Some songId) (song\<lparr>comments := Some comment\<rparr>) = (Inr True, fm') \<longrightarrow>
     songs (updateComment sm songId comment hasInput) =
       write_at (findIndex (\<lambda>song. id_field song = Some songId) (songs sm))
         (song\<lparr>comments := Some comment\<rparr>) (songs sm) \<and>
     readFiltered (updateComment sm songId comment hasInput) =
       write_at (findIndex (\<lambda>song. id_field song = Some songId) (readFiltered sm))
         (song\<lparr>comments := Some comment\<rparr>) (readFiltered sm)"
proof (intro impI)
  let ?p = "\<lambda>song. id_field song = Some songId"
  let ?u = "song\<lparr>comments := Some comment\<rparr>"
  assume h: "find ?p (songs sm) = Some song \<and> hasInput \<and>
             updateSong (firebaseManager sm) (Some songId) ?u = (Inr True, fm')"
  then have pu: "?p ?u"
    by (auto simp: find_Some_iff)
  let ?sm2 = "sm\<lparr>firebaseManager := fm',
                 songs := write_at (findIndex ?p (songs sm)) ?u (songs sm)\<rparr>"
  have res: "updateComment sm songId comment hasInput =
               (case findIndex ?p (readFiltered ?sm2) of
                  None \<Rightarrow> ?sm2
                | Some filteredIndex \<Rightarrow> write_filtered filteredIndex ?u ?sm2)"
    using h by (simp add: updateComment_def Let_def cong: option.case_cong)
  show "songs (updateComment sm songId comment hasInput) =
          write_at (findIndex ?p (songs sm)) ?u (songs sm) \<and>
        readFiltered (updateComment sm songId comment hasInput) =
          write_at (findIndex ?p (readFiltered sm)) ?u (readFiltered sm)"
  proof (cases "filteredSongs sm")
    case SameArray
    then show ?thesis
      unfolding res patch_view
      using write_at_again [of ?p ?u "songs sm", OF pu] by (simp add: readFiltered_def)
  next
    case (OwnArray xs)
    then show ?thesis
      unfolding res patch_view by (simp add: readFiltered_def)
  qed
qed

lemma updateComment_fail:
  "find (\<lambda>song. id_field song = Some songId) (songs sm) = Some song \<and>
   updateSong (firebaseManager sm) (Some songId) (song\<lparr>comments := Some comment\<rparr>) = (Inl e, fm') \<longrightarrow>
     songs (updateComment sm songId comment hasInput) = songs sm \<and>
     filteredSongs (updateComment sm songId comment hasInput) = filteredSongs sm"
  by (simp add: updateComment_def Let_def log_error_def)

lemma store_answers:
  "fst (updateSong fm i data) \<noteq> Inr False \<and> fst (deleteSong fm i) \<noteq> Inr False"
  by (simp add: updateSong_def deleteSong_def Let_def split: prod.splits sum.splits)

lemma updateComment_skip:
  "find (\<lambda>song. id_field song = Some songId) (songs sm) = None \<or> \<not> hasInput \<longrightarrow>
     updateComment sm songId comment hasInput = sm"
  by (auto simp: updateComment_def split: option.splits)

text \<open>
  C7 fails as stated: a comment edit writes the edited record into \<open>filteredSongs\<close>
  directly (the source says so: "Update filteredSongs as well"), and what it leaves is
  not what the current filter yields. Under the search \<open>great\<close> the view holds the
  record commented \<open>Great\<close>; after the comment becomes \<open>bad\<close> the view still holds the
  record, which no longer matches.
\<close>

theorem C7_comment_edit_counterexample:
  "derived sm_view \<and>
   readFiltered (updateComment sm_view ''a1'' ''bad'' True) = [song_a\<lparr>comments := Some ''bad''\<rparr>] \<and>
   applyFilters (songs (updateComment sm_view ''a1'' ''bad'' True))
     (searchInputValue (updateComment sm_view ''a1'' ''bad'' True))
     (typeChecked (updateComment sm_view ''a1'' ''bad'' True))
     (stateChecked (updateComment sm_view ''a1'' ''bad'' True)) = [] \<and>
   \<not> derived (updateComment sm_view ''a1'' ''bad'' True)"
  by code_simp

text \<open>
  C7, amended. After a filter change (\<open>changeFilters\<close>, \<open>clearFilters\<close>) the view is what
  the filter function yields for \<open>songs\<close> and the current query. Add, update and delete
  (\<open>handleSubmit\<close>, \<open>confirmDelete\<close>) write to \<open>songs\<close> only when the store acknowledges,
  and then assign to \<open>filteredSongs\<close> the array the filter function yields for the new
  \<open>songs\<close> and the query; when the store fails (and when there is nothing to delete) they
  leave \<open>songs\<close> and \<open>filteredSongs\<close> as they were. So they keep a derived view derived,
  and a view that is a sub-sequence of \<open>songs\<close> a sub-sequence of \<open>songs\<close>; a derived view
  is such a sub-sequence. None of them changes the query. A comment edit does not
  recompute the view: when the store acknowledges, it writes the edited record over the
  first record with that id in \<open>songs\<close>, and over the first record with that id in
  \<open>filteredSongs\<close>; when the store fails it leaves both as they were, and without a record
  of that id or an input for it nothing changes. After it the view is still a
  sub-sequence of \<open>songs\<close> when the ids in \<open>songs\<close> are distinct. The store's update and
  delete answer with success or with an error, never with a false result, so the cases
  above are all there are.
\<close>

theorem C7_filtered_view:
  "derived (changeFilters v ts ss sm) \<and>
   derived (clearFilters sm) \<and>
   (\<not> valid_doc_id (currentEditId sm) \<and> addSong (firebaseManager sm) fd = (Inr newSong, fm') \<longrightarrow>
      songs (handleSubmit sm fd) = songs sm @ [newSong] \<and>
      filteredSongs (handleSubmit sm fd) =
        OwnArray (applyFilters (songs sm @ [newSong]) (searchInputValue sm) (typeChecked sm)
                    (stateChecked sm))) \<and>
   (\<not> valid_doc_id (currentEditId sm) \<and> addSong (firebaseManager sm) fd = (Inl e, fm') \<longrightarrow>
      songs (handleSubmit sm fd) = songs sm \<and>
      filteredSongs (handleSubmit sm fd) = filteredSongs sm) \<and>
   (valid_doc_id (currentEditId sm) \<and>
    updateSong (firebaseManager sm) (currentEditId sm) fd = (Inr True, fm') \<longrightarrow>
      songs (handleSubmit sm fd) =
        write_at (findIndex (\<lambda>song. id_field song = currentEditId sm) (songs sm))
          (fd\<lparr>id_field := currentEditId sm\<rparr>) (songs sm) \<and>
      filteredSongs (handleSubmit sm fd) =
        OwnArray (applyFilters
                    (write_at (findIndex (\<lambda>song. id_field song = currentEditId sm) (songs sm))
                       (fd\<lparr>id_field := currentEditId sm\<rparr>) (songs sm))
                    (searchInputValue sm) (typeChecked sm) (stateChecked sm))) \<and>
   (valid_doc_id (currentEditId sm) \<and>
    updateSong (firebaseManager sm) (currentEditId sm) fd = (Inl e, fm') \<longrightarrow>
      songs (handleSubmit sm fd) = songs sm \<and>
      filteredSongs (handleSubmit sm fd) = filteredSongs sm) \<and>
   (songToDelete sm = Some target \<and>
    deleteSong (firebaseManager sm) (id_field target) = (Inr True, fm') \<longrightarrow>
      songs (confirmDelete sm) = filter (\<lambda>song. id_field song \<noteq> id_field target) (songs sm) \<and>
      filteredSongs (confirmDelete sm) =
        OwnArray (applyFilters (filter (\<lambda>song. id_field song \<noteq> id_field target) (songs sm))
                    (searchInputValue sm) (typeChecked sm) (stateChecked sm))) \<and>
   (songToDelete sm = Some target \<and>
    deleteSong (firebaseManager sm) (id_field target) = (Inl e, fm') \<longrightarrow>
      songs (confirmDelete sm) = songs sm \<and> filteredSongs (confirmDelete sm) = filteredSongs sm) \<and>
   (songToDelete sm = None \<longrightarrow> confirmDelete sm = sm) \<and>
   (derived sm \<longrightarrow> derived (handleSubmit sm fd)) \<and>
   (derived sm \<longrightarrow> derived (confirmDelete sm)) \<and>
   (derived sm \<longrightarrow> subseq (readFiltered sm) (songs sm)) \<and>
   (subseq (readFiltered sm) (songs sm) \<longrightarrow>
      subseq (readFiltered (handleSubmit sm fd)) (songs (handleSubmit sm fd)) \<and>
      subseq (readFiltered (confirmDelete sm)) (songs (confirmDelete sm))) \<and>
   (searchInputValue (handleSubmit sm fd) = searchInputValue sm \<and>
    typeChecked (handleSubmit sm fd) = typeChecked sm \<and>
    stateChecked (handleSubmit sm fd) = stateChecked sm \<and>
    searchInputValue (confirmDelete sm) = searchInputValue sm \<and>
    typeChecked (confirmDelete sm) = typeChecked sm \<and>
    stateChecked (confirmDelete sm) = stateChecked sm \<and>
    searchInputValue (updateComment sm songId comment hasInput) = searchInputValue sm \<and>
    typeChecked (updateComment sm songId comment hasInput) = typeChecked sm \<and>
    stateChecked (updateComment sm songId comment hasInput) = stateChecked sm) \<and>
   (find (\<lambda>song. id_field song = Some songId) (songs sm) = Some edited \<and> hasInput \<and>
    updateSong (firebaseManager sm) (Some songId) (edited\<lparr>comments := Some comment\<rparr>) =
      (Inr True, fm') \<longrightarrow>
      songs (updateComment sm songId comment hasInput) =
        write_at (findIndex (\<lambda>song. id_field song = Some songId) (songs sm))
          (edited\<lparr>comments := Some comment\<rparr>) (songs sm) \<and>
      readFiltered (updateComment sm songId comment hasInput) =
        write_at (findIndex (\<lambda>song. id_field song = Some songId) (readFiltered sm))
          (edited\<lparr>comments := Some comment\<rparr>) (readFiltered sm)) \<and>
   (find (\<lambda>song. id_field song = Some songId) (songs sm) = Some edited \<and>
    updateSong (firebaseManager sm) (Some songId) (edited\<lparr>comments := Some comment\<rparr>) =
      (Inl e, fm') \<longrightarrow>
      songs (updateComment sm songId comment hasInput) = songs sm \<and>
      filteredSongs (updateComment sm songId comment hasInput) = filteredSongs sm) \<and>
   (find (\<lambda>song. id_field song = Some songId) (songs sm) = None \<or> \<not> hasInput \<longrightarrow>
      updateComment sm songId comment hasInput = sm) \<and>
   (subseq (readFiltered sm) (songs sm) \<and> distinct (map id_field (songs sm)) \<longrightarrow>
      subseq (readFiltered (updateComment sm songId comment hasInput))
        (songs (updateComment sm songId comment hasInput))) \<and>
   (fst (updateSong (firebaseManager sm) anyId fd) \<noteq> Inr False \<and>
    fst (deleteSong (firebaseManager sm) anyId) \<noteq> Inr False)"
proof -
  have c1: "derived (changeFilters v ts ss sm)"
    by (simp add: changeFilters_def derived_applyFilters_on)
  have c2: "derived (clearFilters sm)"
    by (simp add: clearFilters_def derived_def readFiltered_def applyFilters_empty_query)
  have c3: "derived sm \<longrightarrow> derived (handleSubmit sm fd)"
    using derived_handleSubmit by blast
  have c4: "derived sm \<longrightarrow> derived (confirmDelete sm)"
    using derived_confirmDelete by blast
  have c5: "derived sm \<longrightarrow> subseq (readFiltered sm) (songs sm)"
    using subseq_derived by blast
  have c6: "subseq (readFiltered sm) (songs sm) \<longrightarrow>
      subseq (readFiltered (handleSubmit sm fd)) (songs (handleSubmit sm fd)) \<and>
      subseq (readFiltered (confirmDelete sm)) (songs (confirmDelete sm))"
    using subseq_handleSubmit subseq_confirmDelete by blast
  have c7: "subseq (readFiltered sm) (songs sm) \<and> distinct (map id_field (songs sm)) \<longrightarrow>
      subseq (readFiltered (updateComment sm songId comment hasInput))
        (songs (updateComment sm songId comment hasInput))"
    using subseq_updateComment by blast
  show ?thesis
    by (intro conjI c1 c2 c3 c4 c5 c6 c7 handleSubmit_add_ack handleSubmit_add_fail
          handleSubmit_update_ack handleSubmit_update_fail confirmDelete_ack confirmDelete_fail
          confirmDelete_none updateComment_ack updateComment_fail updateComment_skip
          query_kept [of sm fd songId comment hasInput] store_answers)
qed

theorem C7_filtered_view_witness:
  "derived sm_view \<and>
   derived (handleSubmit sm_view (formData ''Ann'' ''Greatest'' [] ''Listo'' ''Lento'')) \<and>
   map songName (songs (handleSubmit sm_view (formData ''Ann'' ''Greatest'' [] ''Listo'' ''Lento''))) =
     [''Xyz'', ''Song One'', ''Greatest''] \<and>
   map songName (readFiltered (handleSubmit sm_view (formData ''Ann'' ''Greatest'' [] ''Listo'' ''Lento''))) =
     [''Xyz'', ''Greatest''] \<and>
   songs (handleSubmit sm_view_down (formData ''Ann'' ''Greatest'' [] ''Listo'' ''Lento'')) =
     [song_a, song_b] \<and>
   filteredSongs (handleSubmit sm_view_down (formData ''Ann'' ''Greatest'' [] ''Listo'' ''Lento'')) =
     OwnArray [song_a] \<and>
   derived (confirmDelete (sm_view\<lparr>songToDelete := Some song_a\<rparr>)) \<and>
   songs (confirmDelete (sm_view\<lparr>songToDelete := Some song_a\<rparr>)) = [song_b] \<and>
   readFiltered (confirmDelete (sm_view\<lparr>songToDelete := Some song_a\<rparr>)) = [] \<and>
   songs (confirmDelete (sm_view_down\<lparr>songToDelete := Some song_a\<rparr>)) = [song_a, song_b] \<and>
   distinct (map id_field (songs sm_view)) \<and>
   subseq (readFiltered (updateComment sm_view ''a1'' ''bad'' True))
     (songs (updateComment sm_view ''a1'' ''bad'' True)) \<and>
   songs (updateComment sm_view ''a1'' ''bad'' True) = [song_a\<lparr>comments := Some ''bad''\<rparr>, song_b] \<and>
   readFiltered (updateComment sm_view ''a1'' ''bad'' True) = [song_a\<lparr>comments := Some ''bad''\<rparr>] \<and>
   songs (updateComment sm_view_down ''a1'' ''bad'' True) = [song_a, song_b] \<and>
   updateComment sm_view ''a1'' ''bad'' False = sm_view"
proof -
  let ?fd = "formData ''Ann'' ''Greatest'' [] ''Listo'' ''Lento''"
  let ?del = "sm_view\<lparr>songToDelete := Some song_a\<rparr>"
  let ?del_down = "sm_view_down\<lparr>songToDelete := Some song_a\<rparr>"
  let ?p = "\<lambda>song. id_field song = Some ''a1''"
  let ?u = "song_a\<lparr>comments := Some ''bad''\<rparr>"
  have d: "derived sm_view" and d': "derived ?del"
    and dist: "distinct (map id_field (songs sm_view))"
    by code_simp+
  have st: "songs sm_view = [song_a, song_b]" "filteredSongs sm_view = OwnArray [song_a]"
      "songs sm_view_down = [song_a, song_b]" "filteredSongs sm_view_down = OwnArray [song_a]"
      "songs ?del = [song_a, song_b]" "songs ?del_down = [song_a, song_b]"
      "readFiltered sm_view = [song_a]"
    by (simp_all add: sm_view_def sm_view_down_def readFiltered_def)

  have new: "\<not> valid_doc_id (currentEditId sm_view)" "\<not> valid_doc_id (currentEditId sm_view_down)"
    by code_simp+
  have "fst (addSong (firebaseManager sm_view) ?fd) = Inr (?fd\<lparr>id_field := Some ''doc''\<rparr>)"
    by code_simp
  then obtain fm1 where add_ok:
      "addSong (firebaseManager sm_view) ?fd = (Inr (?fd\<lparr>id_field := Some ''doc''\<rparr>), fm1)"
    by (cases "addSong (firebaseManager sm_view) ?fd") simp
  have "fst (addSong (firebaseManager sm_view_down) ?fd) = Inl RemoteError"
    by code_simp
  then obtain fm2 where add_no:
      "addSong (firebaseManager sm_view_down) ?fd = (Inl RemoteError, fm2)"
    by (cases "addSong (firebaseManager sm_view_down) ?fd") simp
  note A = C7_filtered_view [where sm = sm_view and fd = ?fd
      and newSong = "?fd\<lparr>id_field := Some ''doc''\<rparr>" and fm' = fm1]
  note B = C7_filtered_view [where sm = sm_view_down and fd = ?fd and e = RemoteError and fm' = fm2]
  have h1: "derived (handleSubmit sm_view ?fd)"
    using A [THEN conjunct2, THEN conjunct2, THEN conjunct2, THEN conjunct2, THEN conjunct2, THEN conjunct2, THEN conjunct2, THEN conjunct2, THEN conjunct2, THEN conjunct1] d by blast
  have "songs (handleSubmit sm_view ?fd) = songs sm_view @ [?fd\<lparr>id_field := Some ''doc''\<rparr>]"
    using A [THEN conjunct2, THEN conjunct2, THEN conjunct1] new(1) add_ok by blast
  then have h2: "map songName (songs (handleSubmit sm_view ?fd)) = [''Xyz'', ''Song One'', ''Greatest'']"
    by (simp add: st song_a_def song_b_def formData_def)
  have h3: "map songName (readFiltered (handleSubmit sm_view ?fd)) = [''Xyz'', ''Greatest'']"
    by code_simp
  have "songs (handleSubmit sm_view_down ?fd) = songs sm_view_down \<and>
        filteredSongs (handleSubmit sm_view_down ?fd) = filteredSongs sm_view_down"
    using B [THEN conjunct2, THEN conjunct2, THEN conjunct2, THEN conjunct1] new(2) add_no by blast
  then have h4: "songs (handleSubmit sm_view_down ?fd) = [song_a, song_b]"
    and h5: "filteredSongs (handleSubmit sm_view_down ?fd) = OwnArray [song_a]"
    by (simp_all add: st)

  have tgt: "songToDelete ?del = Some song_a" "songToDelete ?del_down = Some song_a"
    by simp_all
  have "fst (deleteSong (firebaseManager ?del) (id_field song_a)) = Inr True"
    by code_simp
  then obtain fm3 where del_ok:
      "deleteSong (firebaseManager ?del) (id_field song_a) = (Inr True, fm3)"
    by (cases "deleteSong (firebaseManager ?del) (id_field song_a)") simp
  have "fst (deleteSong (firebaseManager ?del_down) (id_field song_a)) = Inl RemoteError"
    by code_simp
  then obtain fm4 where del_no:
      "deleteSong (firebaseManager ?del_down) (id_field song_a) = (Inl RemoteError, fm4)"
    by (cases "deleteSong (firebaseManager ?del_down) (id_field song_a)") simp
  note C = C7_filtered_view [where sm = ?del and target = song_a and fm' = fm3]
  note D = C7_filtered_view [where sm = ?del_down and target = song_a and e = RemoteError
      and fm' = fm4]
  have k1: "derived (confirmDelete ?del)"
    using C [THEN conjunct2, THEN conjunct2, THEN conjunct2, THEN conjunct2, THEN conjunct2, THEN conjunct2, THEN conjunct2, THEN conjunct2, THEN conjunct2, THEN conjunct2, THEN conjunct1] d' by blast
  have "songs (confirmDelete ?del) =
          filter (\<lambda>song. id_field song \<noteq> id_field song_a) (songs ?del)"
    using C [THEN conjunct2, THEN conjunct2, THEN conjunct2, THEN conjunct2, THEN conjunct2, THEN conjunct2, THEN conjunct1] tgt(1) del_ok by blast
  then have k2: "songs (confirmDelete ?del) = [song_b]"
    by (simp add: st song_a_def song_b_def)
  have k3: "readFiltered (confirmDelete ?del) = []"
    by code_simp
  have "songs (confirmDelete ?del_down) = songs ?del_down"
    using D [THEN conjunct2, THEN conjunct2, THEN conjunct2, THEN conjunct2, THEN conjunct2, THEN conjunct2, THEN conjunct2, THEN conjunct1] tgt(2) del_no by blast
  then have k4: "songs (confirmDelete ?del_down) = [song_a, song_b]"
    by (simp add: st)

  have fnd: "find ?p (songs sm_view) = Some song_a" "find ?p (songs sm_view_down) = Some song_a"
    by code_simp+
  have "fst (updateSong (firebaseManager sm_view) (Some ''a1'') ?u) = Inr True"
    by code_simp
  then obtain fm5 where upd_ok:
      "updateSong (firebaseManager sm_view) (Some ''a1'') ?u = (Inr True, fm5)"
    by (cases "updateSong (firebaseManager sm_view) (Some ''a1'') ?u") simp
  have "fst (updateSong (firebaseManager sm_view_down) (Some ''a1'') ?u) = Inl RemoteError"
    by code_simp
  then obtain fm6 where upd_no:
      "updateSong (firebaseManager sm_view_down) (Some ''a1'') ?u = (Inl RemoteError, fm6)"
    by (cases "updateSong (firebaseManager sm_view_down) (Some ''a1'') ?u") simp
  note E = C7_filtered_view [where sm = sm_view and songId = "''a1''" and comment = "''bad''"
      and hasInput = True and edited = song_a and fm' = fm5]
  note F = C7_filtered_view [where sm = sm_view_down and songId = "''a1''" and comment = "''bad''"
      and hasInput = True and edited = song_a and e = RemoteError and fm' = fm6]
  note G = C7_filtered_view [where sm = sm_view and songId = "''a1''" and comment = "''bad''"
      and hasInput = False]
  have sub: "subseq (readFiltered sm_view) (songs sm_view)"
    using E [THEN conjunct2, THEN conjunct2, THEN conjunct2, THEN conjunct2, THEN conjunct2, THEN conjunct2, THEN conjunct2, THEN conjunct2, THEN conjunct2, THEN conjunct2, THEN conjunct2, THEN conjunct1] d by blast
  have u1: "subseq (readFiltered (updateComment sm_view ''a1'' ''bad'' True))
     (songs (updateComment sm_view ''a1'' ''bad'' True))"
    using E [THEN conjunct2, THEN conjunct2, THEN conjunct2, THEN conjunct2, THEN conjunct2, THEN conjunct2, THEN conjunct2, THEN conjunct2, THEN conjunct2, THEN conjunct2, THEN conjunct2, THEN conjunct2, THEN conjunct2, THEN conjunct2, THEN conjunct2, THEN conjunct2, THEN conjunct2, THEN conjunct1] sub dist by blast
  have "songs (updateComment sm_view ''a1'' ''bad'' True) =
          write_at (findIndex ?p (songs sm_view)) ?u (songs sm_view) \<and>
        readFiltered (updateComment sm_view ''a1'' ''bad'' True) =
          write_at (findIndex ?p (readFiltered sm_view)) ?u (readFiltered sm_view)"
    using E [THEN conjunct2, THEN conjunct2, THEN conjunct2, THEN conjunct2, THEN conjunct2, THEN conjunct2, THEN conjunct2, THEN conjunct2, THEN conjunct2, THEN conjunct2, THEN conjunct2, THEN conjunct2, THEN conjunct2, THEN conjunct2, THEN conjunct1] fnd(1) upd_ok by blast
  then have u2: "songs (updateComment sm_view ''a1'' ''bad'' True) = [?u, song_b]"
    and u3: "readFiltered (updateComment sm_view ''a1'' ''bad'' True) = [?u]"
    by (simp_all add: st write_at_def song_a_def song_b_def)
  have "songs (updateComment sm_view_down ''a1'' ''bad'' True) = songs sm_view_down \<and>
        filteredSongs (updateComment sm_view_down ''a1'' ''bad'' True) = filteredSongs sm_view_down"
    using F [THEN conjunct2, THEN conjunct2, THEN conjunct2, THEN conjunct2, THEN conjunct2, THEN conjunct2, THEN conjunct2, THEN conjunct2, THEN conjunct2, THEN conjunct2, THEN conjunct2, THEN conjunct2, THEN conjunct2, THEN conjunct2, THEN conjunct2, THEN conjunct1] fnd(2) upd_no by blast
  then have u4: "songs (updateComment sm_view_down ''a1'' ''bad'' True) = [song_a, song_b]"
    by (simp add: st)
  have u5: "updateComment sm_view ''a1'' ''bad'' False = sm_view"
    using G [THEN conjunct2, THEN conjunct2, THEN conjunct2, THEN conjunct2, THEN conjunct2, THEN conjunct2, THEN conjunct2, THEN conjunct2, THEN conjunct2, THEN conjunct2, THEN conjunct2, THEN conjunct2, THEN conjunct2, THEN conjunct2, THEN conjunct2, THEN conjunct2, THEN conjunct1] by blast
  show ?thesis
    by (intro conjI d dist h1 h2 h3 h4 h5 k1 k2 k3 k4 u1 u2 u3 u4 u5)
qed

section \<open>Properties of the CSV round trip\<close>

subsection \<open>Splitting and joining\<close>

lemma split_loop_no_sep: "sep \<notin> set r \<Longrightarrow> split_loop sep r cur = [cur @ r]"
  by (induction r arbitrary: cur) auto

lemma split_loop_sep:
  "sep \<notin> set r \<Longrightarrow> split_loop sep (r @ sep # rest) cur = (cur @ r) # split_loop sep rest []"
  by (induction r arbitrary: cur) auto

lemma str_split_join:
  "rows \<noteq> [] \<Longrightarrow> \<forall>r\<in>set rows. sep \<notin> set r \<Longrightarrow> str_split sep (str_join [sep] rows) = rows"
proof (induction "[sep]" rows rule: str_join.induct)
  case 1
  then show ?case by simp
next
  case (2 x)
  then show ?case by (simp add: str_split_def split_loop_no_sep)
next
  case (3 x y ys)
  then have "split_loop sep (str_join [sep] (y # ys)) [] = y # ys"
    by (simp add: str_split_def)
  then show ?case
    using 3 by (simp add: str_split_def split_loop_sep)
qed

lemma set_str_join: "set (str_join [sep] rows) \<subseteq> insert sep (\<Union>r\<in>set rows. set r)"
  by (induction "[sep]" rows rule: str_join.induct) auto

subsection \<open>The line parser on escaped fields\<close>

lemma str_includes_single: "str_includes s [c] \<longleftrightarrow> c \<in> set s"
  by (induction s) auto

lemma loop_plain:
  "dquote \<notin> set f \<Longrightarrow> comma \<notin> set f \<Longrightarrow>
   parseCSVLine_loop (f @ rest) result current inQuotes =
   parseCSVLine_loop rest result (current @ f) inQuotes"
  by (induction f arbitrary: current) auto

lemma loop_quoted_body:
  "parseCSVLine_loop (replace_quotes f @ rest) result current True =
   parseCSVLine_loop rest result (current @ unquote f) True"
  by (induction f arbitrary: current) (auto simp: replace_quotes_def unquote_def)

lemma unquote_id: "dquote \<notin> set f \<Longrightarrow> unquote f = f"
  by (induction f) (auto simp: unquote_def)

lemma loop_escaped:
  "parseCSVLine_loop (escapeCSVField f @ rest) result current False =
   parseCSVLine_loop rest result (current @ unquote f) False"
proof (cases "comma \<in> set f \<or> dquote \<in> set f \<or> newline \<in> set f")
  case True
  then have "escapeCSVField f = [dquote] @ replace_quotes f @ [dquote]"
    by (auto simp: escapeCSVField_def str_includes_single)
  then show ?thesis
    by (simp add: loop_quoted_body)
next
  case False
  then have "escapeCSVField f = f"
    by (simp add: escapeCSVField_def str_includes_single)
  then show ?thesis
    using False by (simp add: loop_plain unquote_id)
qed

lemma loop_escaped_row:
  "parseCSVLine_loop (str_join [comma] (escapeCSVField f # map escapeCSVField fs))
     result current False =
   result @ (current @ unquote f) # map unquote fs"
proof (induction fs arbitrary: f result current)
  case Nil
  show ?case
    using loop_escaped [of f "[]" result current] by simp
next
  case (Cons g fs)
  show ?case
    using loop_escaped [of f "comma # str_join [comma] (escapeCSVField g # map escapeCSVField fs)"
            result current]
    by (simp add: Cons.IH)
qed

lemma parseCSVLine_escaped_row:
  "fs \<noteq> [] \<Longrightarrow> parseCSVLine (str_join [comma] (map escapeCSVField fs)) = map unquote fs"
  by (cases fs) (simp_all add: parseCSVLine_def loop_escaped_row)


subsection \<open>Trimming an exported line\<close>

lemma not_ws_comma: "\<not> isWhiteSpace comma"
  by code_simp

lemma not_ws_dquote: "\<not> isWhiteSpace dquote"
  by code_simp

lemma trimStart_Cons: "\<not> isWhiteSpace c \<Longrightarrow> trimStart (c # xs) = c # xs"
  by (simp add: trimStart_def)

lemma trimEnd_snoc: "\<not> isWhiteSpace c \<Longrightarrow> trimEnd (xs @ [c]) = xs @ [c]"
  by (simp add: trimEnd_def)

lemma trimEnd_append_Cons:
  "\<not> isWhiteSpace c \<Longrightarrow> trimEnd (xs @ c # ys) = xs @ c # trimEnd ys"
proof -
  assume c: "\<not> isWhiteSpace c"
  have "dropWhile isWhiteSpace (rev ys @ c # rev xs) =
          dropWhile isWhiteSpace (rev ys) @ c # rev xs"
    using c by (induction "rev ys" arbitrary: ys) (auto simp: dropWhile_append)
  then show ?thesis
    by (simp add: trimEnd_def)
qed

lemma trimEnd_idem: "trimEnd (trimEnd s) = trimEnd s"
  by (simp add: trimEnd_def)

lemma trim_trimEnd: "trim (trimEnd s) = trim s"
  by (simp add: trim_def trimEnd_idem)

lemma set_trimEnd: "set (trimEnd s) \<subseteq> set s"
  using set_dropWhileD [of _ isWhiteSpace "rev s"] by (auto simp: trimEnd_def)

lemma trim_fixed_hd: "trim f = f \<Longrightarrow> f \<noteq> [] \<Longrightarrow> \<not> isWhiteSpace (hd f)"
  using hd_dropWhile [of isWhiteSpace "trimEnd f"] by (simp add: trim_def trimStart_def)

lemma escaped_starts:
  assumes "trim f = f"
  shows "\<exists>c t. escapeCSVField f @ comma # r = c # t \<and> \<not> isWhiteSpace c"
proof (cases "escapeCSVField f = f")
  case True
  show ?thesis
  proof (cases f)
    case Nil
    then show ?thesis using True not_ws_comma by simp
  next
    case (Cons a as)
    then have "\<not> isWhiteSpace a"
      using trim_fixed_hd [OF assms] by simp
    then show ?thesis using True Cons by simp
  qed
next
  case False
  then have "escapeCSVField f = [dquote] @ replace_quotes f @ [dquote]"
    by (simp add: escapeCSVField_def split: if_splits)
  then show ?thesis using not_ws_dquote by simp
qed

lemma trimEnd_escaped:
  "\<exists>g. trimEnd (escapeCSVField f) = escapeCSVField g \<and> trim (unquote g) = trim (unquote f)"
proof (cases "comma \<in> set f \<or> dquote \<in> set f \<or> newline \<in> set f")
  case True
  then have "escapeCSVField f = ([dquote] @ replace_quotes f) @ [dquote]"
    by (auto simp: escapeCSVField_def str_includes_single)
  then have "trimEnd (escapeCSVField f) = escapeCSVField f"
    by (simp only: trimEnd_snoc [OF not_ws_dquote])
  then show ?thesis by blast
next
  case False
  then have plain: "escapeCSVField f = f"
    by (simp add: escapeCSVField_def str_includes_single)
  have "comma \<notin> set (trimEnd f) \<and> dquote \<notin> set (trimEnd f) \<and> newline \<notin> set (trimEnd f)"
    using False set_trimEnd [of f] by blast
  then have "escapeCSVField (trimEnd f) = trimEnd f" "unquote (trimEnd f) = trimEnd f"
    by (simp_all add: escapeCSVField_def str_includes_single unquote_id)
  moreover have "unquote f = f"
    using False by (simp add: unquote_id)
  ultimately have "trimEnd (escapeCSVField f) = escapeCSVField (trimEnd f) \<and>
      trim (unquote (trimEnd f)) = trim (unquote f)"
    using plain by (simp add: trim_trimEnd)
  then show ?thesis by blast
qed

lemma trim_csv_line:
  assumes "trim f0 = f0"
  shows "\<exists>g. trim (str_join [comma] (map escapeCSVField [f0, f1, f2, f3, f4, f5])) =
               str_join [comma] (map escapeCSVField [f0, f1, f2, f3, f4, g]) \<and>
             trim (unquote g) = trim (unquote f5)"
proof -
  obtain g where g: "trimEnd (escapeCSVField f5) = escapeCSVField g"
      "trim (unquote g) = trim (unquote f5)"
    using trimEnd_escaped [of f5] by blast
  let ?mid = "escapeCSVField f1 @ comma # escapeCSVField f2 @ comma # escapeCSVField f3 @
              comma # escapeCSVField f4"
  let ?H = "escapeCSVField f0 @ comma # ?mid"
  have row: "str_join [comma] (map escapeCSVField [f0, f1, f2, f3, f4, x]) =
               ?H @ comma # escapeCSVField x" for x
    by simp
  have "trimEnd (?H @ comma # escapeCSVField f5) = ?H @ comma # escapeCSVField g"
    using trimEnd_append_Cons [OF not_ws_comma, of ?H "escapeCSVField f5"] g(1) by simp
  moreover obtain c t where "?H @ comma # escapeCSVField g = c # t" "\<not> isWhiteSpace c"
    using escaped_starts [OF assms, of "?mid @ comma # escapeCSVField g"] by auto
  ultimately have "trim (?H @ comma # escapeCSVField f5) = ?H @ comma # escapeCSVField g"
    by (simp add: trim_def trimStart_Cons)
  then show ?thesis
    unfolding row using g(2) by blast
qed


subsection \<open>One exported row, parsed\<close>

lemma state_values:
  "\<forall>st\<in>set (map fst stateMap).
     dquote \<notin> set st \<and> newline \<notin> set st \<and> trim st = st \<and>
     js_or (mapState (Some st)) ''Por aprobar'' = st"
  by code_simp

lemma type_values:
  "\<forall>ty\<in>set (map fst typeMap).
     dquote \<notin> set ty \<and> newline \<notin> set ty \<and> trim ty = ty \<and>
     js_or (mapType (Some ty)) ''Lento'' = ty"
  by code_simp

lemma or_empty_Some: "or_empty (Some v) = v"
  by (simp add: or_empty_def js_or_def)

lemma set_replace_quotes: "set (replace_quotes f) \<subseteq> insert dquote (set f)"
  by (induction f) (auto simp: replace_quotes_def)

lemma set_escapeCSVField: "set (escapeCSVField f) \<subseteq> insert dquote (set f)"
  using set_replace_quotes [of f] by (auto simp: escapeCSVField_def)

lemma newline_not_in_row:
  assumes "exportable s"
  shows "newline \<notin> set (str_join [comma] (csv_row s))"
proof -
  have st: "newline \<notin> set (state s)" and ty: "newline \<notin> set (type s)"
    using assms state_values type_values by (auto simp: exportable_def)
  have "\<forall>f\<in>set [songName s, artistName s, state s, type s, or_empty (comments s),
                   or_empty (youtubeLink s)]. newline \<notin> set f"
    using assms st ty by (simp add: exportable_def)
  then have "\<forall>e\<in>set (csv_row s). newline \<notin> set e"
    using set_escapeCSVField by (fastforce simp: csv_row_def)
  then show ?thesis
    using set_str_join [of comma "csv_row s"] by fastforce
qed

lemma row_parsed:
  assumes "exportable s"
  shows "trim (str_join [comma] (csv_row s)) \<noteq> [] \<and>
         4 \<le> length (parseCSVLine (trim (str_join [comma] (csv_row s)))) \<and>
         song_of_values True newId (parseCSVLine (trim (str_join [comma] (csv_row s)))) =
           reimported newId s"
proof -
  have names: "trim (songName s) = songName s" "trim (artistName s) = artistName s"
      "unquote (songName s) = songName s" "unquote (artistName s) = artistName s"
    using assms by (simp_all add: exportable_def unquote_id)
  have st: "unquote (state s) = state s" "trim (state s) = state s"
      "js_or (mapState (Some (state s))) ''Por aprobar'' = state s"
    using assms state_values by (auto simp: exportable_def unquote_id)
  have ty: "unquote (type s) = type s" "trim (type s) = type s"
      "js_or (mapType (Some (type s))) ''Lento'' = type s"
    using assms type_values by (auto simp: exportable_def unquote_id)
  obtain g where g: "trim (str_join [comma] (csv_row s)) =
        str_join [comma] (map escapeCSVField
          [songName s, artistName s, state s, type s, or_empty (comments s), g])"
      "trim (unquote g) = trim (unquote (or_empty (youtubeLink s)))"
    using trim_csv_line [OF names(1), of "artistName s" "state s" "type s"
            "or_empty (comments s)" "or_empty (youtubeLink s)"]
    by (auto simp: csv_row_def)
  have vals: "parseCSVLine (trim (str_join [comma] (csv_row s))) =
        [songName s, artistName s, state s, type s, unquote (or_empty (comments s)), unquote g]"
    unfolding g(1) by (subst parseCSVLine_escaped_row) (simp_all add: names st ty)
  have "trim (str_join [comma] (csv_row s)) \<noteq> []"
    unfolding g(1) by simp
  moreover have "song_of_values True newId
        [songName s, artistName s, state s, type s, unquote (or_empty (comments s)), unquote g] =
      reimported newId s"
    by (simp add: song_of_values_def reimported_def trimmed_at_def or_empty_Some names st ty g(2))
  ultimately show ?thesis
    unfolding vals by simp
qed

subsection \<open>The whole file\<close>

lemma parseCSV_rows_exported:
  assumes "arr_includes headers ''Estado''" and "arr_includes headers ''Tipo''"
    and "\<forall>s\<in>set ss. exportable s"
  shows "parseCSV_rows gen headers i (map (\<lambda>s. str_join [comma] (csv_row s)) ss) =
           map (\<lambda>(n, s). reimported (gen n) s) (enumerate i ss)"
  using assms(3)
proof (induction ss arbitrary: i)
  case Nil
  show ?case by simp
next
  case (Cons s ss)
  then have "exportable s"
    by simp
  then show ?case
    using Cons assms(1,2) row_parsed [of s "gen i"] by (simp add: Let_def)
qed

lemma headers_parsed:
  "newline \<notin> set (str_join [comma] csv_headers) \<and>
   arr_includes (map trim (str_split comma (str_join [comma] csv_headers))) ''Estado'' \<and>
   arr_includes (map trim (str_split comma (str_join [comma] csv_headers))) ''Tipo''"
  by code_simp

lemma parseCSV_exported:
  assumes "\<forall>s\<in>set ss. exportable s"
  shows "parseCSV gen (generateCSVContent ss) =
           map (\<lambda>(n, s). reimported (gen n) s) (enumerate 1 ss)"
proof -
  let ?rows = "str_join [comma] csv_headers # map (\<lambda>s. str_join [comma] (csv_row s)) ss"
  have "\<forall>r\<in>set ?rows. newline \<notin> set r"
    using assms headers_parsed newline_not_in_row by auto
  then have "str_split newline (generateCSVContent ss) = ?rows"
    unfolding generateCSVContent_def by (intro str_split_join) simp_all
  then show ?thesis
    using headers_parsed parseCSV_rows_exported [OF _ _ assms]
    by (simp add: parseCSV_def)
qed


lemma map_enumerate_snd: "map (\<lambda>(n, s). h s) (enumerate i ss) = map h ss"
  by (induction ss arbitrary: i) simp_all

text \<open>
  C6 fails as stated: the parser trims every value it reads, so a name with white space
  at an end does not come back exactly. An artist name with a leading space comes back
  without it.
\<close>

theorem C6_round_trip_counterexample:
  "map artistName (parseCSV (\<lambda>i. ''tmp'') (generateCSVContent [song_a\<lparr>artistName := '' Abc''\<rparr>])) =
     [''Abc''] \<and>
   map artistName [song_a\<lparr>artistName := '' Abc''\<rparr>] = ['' Abc''] \<and>
   map artistName (parseCSV (\<lambda>i. ''tmp'') (generateCSVContent [song_a\<lparr>artistName := '' Abc''\<rparr>])) \<noteq>
     map artistName [song_a\<lparr>artistName := '' Abc''\<rparr>]"
  by code_simp

text \<open>
  C6, amended. For every list of songs whose texts hold no line feed, whose song and
  artist names hold no double quote and no white space at either end, and whose state and
  type are values of the enumerations, exporting the list to CSV and parsing the result
  with the new-layout parser yields one draft per song, in order, with the same artist
  name, song name, state and type. Where the comments hold no double quote they come back
  trimmed, and likewise the link (an absent one as the empty text).
\<close>

theorem C6_csv_round_trip:
  "\<forall>s\<in>set ss. exportable s \<Longrightarrow>
   map artistName (parseCSV gen (generateCSVContent ss)) = map artistName ss \<and>
   map songName (parseCSV gen (generateCSVContent ss)) = map songName ss \<and>
   map state (parseCSV gen (generateCSVContent ss)) = map state ss \<and>
   map type (parseCSV gen (generateCSVContent ss)) = map type ss \<and>
   ((\<forall>s\<in>set ss. dquote \<notin> set (or_empty (comments s))) \<longrightarrow>
      map comments (parseCSV gen (generateCSVContent ss)) =
        map (\<lambda>s. Some (trim (or_empty (comments s)))) ss) \<and>
   ((\<forall>s\<in>set ss. dquote \<notin> set (or_empty (youtubeLink s))) \<longrightarrow>
      map youtubeLink (parseCSV gen (generateCSVContent ss)) =
        map (\<lambda>s. Some (trim (or_empty (youtubeLink s)))) ss)"
proof -
  assume ex: "\<forall>s\<in>set ss. exportable s"
  have fld: "map f (parseCSV gen (generateCSVContent ss)) = map (\<lambda>s. f (reimported newId s)) ss"
    if "\<And>n s. f (reimported (gen n) s) = f (reimported newId s)" for f :: "song \<Rightarrow> 'b" and newId
  proof -
    have "map f (parseCSV gen (generateCSVContent ss)) =
            map (\<lambda>(n, s). f (reimported newId s)) (enumerate 1 ss)"
      unfolding parseCSV_exported [OF ex] using that by (simp add: case_prod_unfold)
    then show ?thesis
      by (simp add: map_enumerate_snd)
  qed
  have "map artistName (parseCSV gen (generateCSVContent ss)) = map artistName ss"
    using fld [of artistName "[]"] by (simp add: reimported_def)
  moreover have "map songName (parseCSV gen (generateCSVContent ss)) = map songName ss"
    using fld [of songName "[]"] by (simp add: reimported_def)
  moreover have "map state (parseCSV gen (generateCSVContent ss)) = map state ss"
    using fld [of state "[]"] by (simp add: reimported_def)
  moreover have "map type (parseCSV gen (generateCSVContent ss)) = map type ss"
    using fld [of type "[]"] by (simp add: reimported_def)
  moreover have "(\<forall>s\<in>set ss. dquote \<notin> set (or_empty (comments s))) \<longrightarrow>
      map comments (parseCSV gen (generateCSVContent ss)) =
        map (\<lambda>s. Some (trim (or_empty (comments s)))) ss"
    using fld [of comments "[]"] by (simp add: reimported_def unquote_id)
  moreover have "(\<forall>s\<in>set ss. dquote \<notin> set (or_empty (youtubeLink s))) \<longrightarrow>
      map youtubeLink (parseCSV gen (generateCSVContent ss)) =
        map (\<lambda>s. Some (trim (or_empty (youtubeLink s)))) ss"
    using fld [of youtubeLink "[]"] by (simp add: reimported_def unquote_id)
  ultimately show ?thesis
    by blast
qed

theorem C6_csv_round_trip_witness:
  "exportable song_a \<and> exportable song_b \<and>
   map artistName (parseCSV (\<lambda>i. ''tmp'') (generateCSVContent [song_a, song_b])) =
     [''Abc'', ''Smith, John''] \<and>
   map songName (parseCSV (\<lambda>i. ''tmp'') (generateCSVContent [song_a, song_b])) =
     [''Xyz'', ''Song One''] \<and>
   map state (parseCSV (\<lambda>i. ''tmp'') (generateCSVContent [song_a, song_b])) =
     [''Aprobado'', ''Listo''] \<and>
   map type (parseCSV (\<lambda>i. ''tmp'') (generateCSVContent [song_a, song_b])) =
     [''Lento'', ''Movido''] \<and>
   map comments (parseCSV (\<lambda>i. ''tmp'') (generateCSVContent [song_a, song_b])) =
     [Some ''Great'', Some []]"
proof -
  have ex: "exportable song_a" "exportable song_b"
    by code_simp+
  then have all: "\<forall>s\<in>set [song_a, song_b]. exportable s"
    by simp
  have q: "\<forall>s\<in>set [song_a, song_b]. dquote \<notin> set (or_empty (comments s))"
    by code_simp
  have tr: "map (\<lambda>s. Some (trim (or_empty (comments s)))) [song_a, song_b] = [Some ''Great'', Some []]"
    by code_simp
  note t = C6_csv_round_trip [OF all, of "\<lambda>i. ''tmp''"]
  have "map artistName (parseCSV (\<lambda>i. ''tmp'') (generateCSVContent [song_a, song_b])) =
          map artistName [song_a, song_b]"
       "map songName (parseCSV (\<lambda>i. ''tmp'') (generateCSVContent [song_a, song_b])) =
          map songName [song_a, song_b]"
       "map state (parseCSV (\<lambda>i. ''tmp'') (generateCSVContent [song_a, song_b])) =
          map state [song_a, song_b]"
       "map type (parseCSV (\<lambda>i. ''tmp'') (generateCSVContent [song_a, song_b])) =
          map type [song_a, song_b]"
       "map comments (parseCSV (\<lambda>i. ''tmp'') (generateCSVContent [song_a, song_b])) =
          map (\<lambda>s. Some (trim (or_empty (comments s)))) [song_a, song_b]"
    using t q by blast+
  then show ?thesis
    using ex tr by (simp add: song_a_def song_b_def)
qed

end
